theory Spec2Isabelle
  imports Main
begin

section \<open>JavaScript strings\<close>

text \<open>
  A JavaScript string is a sequence of UTF-16 code units; \<open>length\<close>, \<open>slice\<close>, \<open>.\<close> in a
  regular expression without the \<open>u\<close> flag and \<open>trim\<close> all count code units. A string is
  modelled as the list of its code unit values. The literals of the source are written
  with \<open>js\<close>, and the few characters beyond ASCII in them by their code unit.
\<close>

type_synonym jsstring = "nat list"

definition js :: "string \<Rightarrow> jsstring" where
  "js s = map of_char s"

text \<open>\<open>s.length\<close> is \<open>length s\<close>; a string is truthy when it is not empty;
  \<open>undefined\<close> and \<open>null\<close> are \<open>None\<close>.\<close>

definition truthy :: "jsstring option \<Rightarrow> bool" where
  "truthy v = (case v of None \<Rightarrow> False | Some s \<Rightarrow> s \<noteq> [])"

text \<open>\<open>a || b\<close> on strings that may be undefined.\<close>

definition or_else :: "jsstring option \<Rightarrow> jsstring option \<Rightarrow> jsstring option" where
  "or_else a b = (if truthy a then a else b)"

text \<open>
  \<open>toLowerCase\<close>: the ASCII and Latin-1 capitals move to their small letters; U+0130
  becomes \<open>i\<close> followed by U+0307 and U+212A (the Kelvin sign) becomes \<open>k\<close>, the only
  characters beyond ASCII whose lower case contains an ASCII character. Every other code
  unit is kept: its lower case is neither an ASCII character nor a line terminator and has
  the same number of code units, which is all that the patterns of this program observe.
\<close>

definition lower_unit :: "nat \<Rightarrow> jsstring" where
  "lower_unit u =
     (if 65 \<le> u \<and> u \<le> 90 then [u + 32]
      else if 192 \<le> u \<and> u \<le> 222 \<and> u \<noteq> 215 then [u + 32]
      else if u = 304 then [105, 775]
      else if u = 8490 then [107]
      else [u])"

definition toLowerCase :: "jsstring \<Rightarrow> jsstring" where
  "toLowerCase s = concat (map lower_unit s)"

text \<open>\<open>trim\<close> removes white space and line terminators from both ends.\<close>

definition is_space :: "nat \<Rightarrow> bool" where
  "is_space u \<longleftrightarrow>
     u = 9 \<or> u = 10 \<or> u = 11 \<or> u = 12 \<or> u = 13 \<or> u = 32 \<or> u = 160 \<or> u = 5760 \<or>
     (8192 \<le> u \<and> u \<le> 8202) \<or> u = 8232 \<or> u = 8233 \<or> u = 8239 \<or> u = 8287 \<or>
     u = 12288 \<or> u = 65279"

definition trim :: "jsstring \<Rightarrow> jsstring" where
  "trim s = rev (dropWhile is_space (rev (dropWhile is_space s)))"

text \<open>\<open>xs.join(sep)\<close>.\<close>

fun join :: "jsstring \<Rightarrow> jsstring list \<Rightarrow> jsstring" where
  "join sep [] = []"
| "join sep [x] = x"
| "join sep (x # y # ys) = x @ sep @ join sep (y # ys)"

text \<open>The decimal text of a natural number, as a template literal prints it.\<close>

fun show_nat :: "nat \<Rightarrow> jsstring" where
  "show_nat n = (if n < 10 then [48 + n] else show_nat (n div 10) @ [48 + n mod 10])"

declare show_nat.simps [simp del]

section \<open>Regular expressions\<close>

text \<open>
  The patterns of the source use literal characters, \<open>.\<close>, \<open>\d\<close>, \<open>\b\<close>, grouping with
  alternatives, \<open>?\<close>, and \<open>*\<close> on a single character class, all with the \<open>i\<close> flag.
  The matcher is the backtracking one of the language: it returns every way to match at
  the current position, in the order in which backtracking tries them, so the head of
  the list is the match that \<open>exec\<close>, \<open>match\<close> and \<open>replace\<close> take.
\<close>

datatype atom = Chr nat | Dot | Digit

datatype rx =
    Eps
  | Fail
  | Atom atom
  | Bnd
  | Seq rx rx
  | Alt rx rx
  | Opt rx
  | Star atom

text \<open>Word characters of \<open>\b\<close>: \<open>[A-Za-z0-9_]\<close>.\<close>

definition is_word :: "nat \<Rightarrow> bool" where
  "is_word u \<longleftrightarrow> (48 \<le> u \<and> u \<le> 57) \<or> (65 \<le> u \<and> u \<le> 90) \<or> u = 95 \<or> (97 \<le> u \<and> u \<le> 122)"

text \<open>With the \<open>i\<close> flag two characters match when their canonical forms agree; a
  character beyond ASCII never canonicalises to an ASCII one, and every pattern character
  of the source is ASCII.\<close>

definition canon :: "nat \<Rightarrow> nat" where
  "canon u = (if 97 \<le> u \<and> u \<le> 122 then u - 32 else u)"

text \<open>\<open>.\<close> matches every code unit but the line terminators.\<close>

definition is_line_terminator :: "nat \<Rightarrow> bool" where
  "is_line_terminator u \<longleftrightarrow> u = 10 \<or> u = 13 \<or> u = 8232 \<or> u = 8233"

fun atom_ok :: "atom \<Rightarrow> nat \<Rightarrow> bool" where
  "atom_ok (Chr p) u = (canon p = canon u)"
| "atom_ok Dot u = (\<not> is_line_terminator u)"
| "atom_ok Digit u = (48 \<le> u \<and> u \<le> 57)"

text \<open>A matcher state: whether the character before the position is a word character,
  and the rest of the input.\<close>

type_synonym mstate = "bool \<times> jsstring"

fun star_atom :: "atom \<Rightarrow> bool \<Rightarrow> jsstring \<Rightarrow> mstate list" where
  "star_atom a w [] = [(w, [])]"
| "star_atom a w (c # cs) =
     (if atom_ok a c then star_atom a (is_word c) cs @ [(w, c # cs)] else [(w, c # cs)])"

fun next_is_word :: "jsstring \<Rightarrow> bool" where
  "next_is_word [] = False"
| "next_is_word (c # cs) = is_word c"

fun rx_match :: "rx \<Rightarrow> mstate \<Rightarrow> mstate list" where
  "rx_match Eps st = [st]"
| "rx_match Fail st = []"
| "rx_match (Atom a) (w, []) = []"
| "rx_match (Atom a) (w, c # cs) = (if atom_ok a c then [(is_word c, cs)] else [])"
| "rx_match Bnd (w, s) = (if w \<noteq> next_is_word s then [(w, s)] else [])"
| "rx_match (Seq r1 r2) st = concat (map (rx_match r2) (rx_match r1 st))"
| "rx_match (Alt r1 r2) st = rx_match r1 st @ rx_match r2 st"
| "rx_match (Opt r) st = rx_match r st @ [st]"
| "rx_match (Star a) (w, s) = star_atom a w s"

text \<open>\<open>r.test(s)\<close> for a pattern without the \<open>g\<close> flag: is there a position of \<open>s\<close>
  at which \<open>r\<close> matches.\<close>

fun rx_search :: "rx \<Rightarrow> bool \<Rightarrow> jsstring \<Rightarrow> bool" where
  "rx_search r w [] = (rx_match r (w, []) \<noteq> [])"
| "rx_search r w (c # cs) = (rx_match r (w, c # cs) \<noteq> [] \<or> rx_search r (is_word c) cs)"

definition rx_test :: "rx \<Rightarrow> jsstring \<Rightarrow> bool" where
  "rx_test r s = rx_search r False s"

text \<open>\<open>s.match(r)\<close> without the \<open>g\<close> flag: the text of the leftmost match, or null.\<close>

fun rx_find :: "rx \<Rightarrow> bool \<Rightarrow> jsstring \<Rightarrow> jsstring option" where
  "rx_find r w [] = (case rx_match r (w, []) of [] \<Rightarrow> None | m # ms \<Rightarrow> Some [])"
| "rx_find r w (c # cs) =
     (case rx_match r (w, c # cs) of
        [] \<Rightarrow> rx_find r (is_word c) cs
      | (w', rest) # ms \<Rightarrow> Some (take (length (c # cs) - length rest) (c # cs)))"

text \<open>\<open>s.replace(r, rep)\<close> with the \<open>g\<close> flag and a replacement text without \<open>$\<close>: the
  matches are taken from left to right, each search starting where the match before it
  ended; the replaced text is not searched again. After an empty match the search moves
  on by one character.\<close>

fun rx_replace :: "rx \<Rightarrow> jsstring \<Rightarrow> bool \<Rightarrow> jsstring \<Rightarrow> jsstring" where
  "rx_replace r rep w [] = (case rx_match r (w, []) of [] \<Rightarrow> [] | m # ms \<Rightarrow> rep)"
| "rx_replace r rep w (c # cs) =
     (case rx_match r (w, c # cs) of
        [] \<Rightarrow> c # rx_replace r rep (is_word c) cs
      | (w', rest) # ms \<Rightarrow>
          if length rest < length (c # cs) then rep @ rx_replace r rep w' rest
          else rep @ c # rx_replace r rep (is_word c) cs)"

text \<open>Writing patterns: a literal text, a sequence, a group of alternatives.\<close>

fun lit :: "string \<Rightarrow> rx" where
  "lit [] = Eps"
| "lit [c] = Atom (Chr (of_char c))"
| "lit (c # cs) = Seq (Atom (Chr (of_char c))) (lit cs)"

fun seqs :: "rx list \<Rightarrow> rx" where
  "seqs [] = Eps"
| "seqs [r] = r"
| "seqs (r # rs) = Seq r (seqs rs)"

fun alts :: "rx list \<Rightarrow> rx" where
  "alts [] = Fail"
| "alts [r] = r"
| "alts (r # rs) = Alt r (alts rs)"

section \<open>Intent classification\<close>

text \<open>
  The intent names of the source (\<open>'general'\<close>, \<open>'tracking'\<close>, \<open>'return'\<close>, ... ) and its
  three risk levels.
\<close>

datatype intent =
    General | Tracking | Return | Refund | DamagedItem | ShippingInquiry | ItemQuestion
  | DiscountRequest | Cancellation | PositiveFeedback | LegalThreat | FraudClaim | OffPlatform

datatype risk = Low | Medium | High

record classification =
  intent :: intent
  confidence :: nat
  risk :: risk

text \<open>A pattern table in the order of \<open>Object.entries\<close>, the order in which the keys
  are written.\<close>

type_synonym patterns = "(intent \<times> rx list) list"

text \<open>\<open>let score = 0; for (const r of regexes) if (r.test(msg)) score++;\<close>\<close>

definition score_of :: "rx list \<Rightarrow> jsstring \<Rightarrow> nat" where
  "score_of regexes msg = fold (\<lambda>r score. if rx_test r msg then score + 1 else score) regexes 0"

text \<open>The loop over the table, from \<open>bestIntent = 'general'\<close>, \<open>bestScore = 0\<close>.\<close>

definition best_step :: "jsstring \<Rightarrow> intent \<times> rx list \<Rightarrow> intent \<times> nat \<Rightarrow> intent \<times> nat" where
  "best_step msg entry best =
     (let score = score_of (snd entry) msg
      in if score > snd best then (fst entry, score) else best)"

definition best_of :: "patterns \<Rightarrow> jsstring \<Rightarrow> intent \<times> nat" where
  "best_of table msg = fold (best_step msg) table (General, 0)"

text \<open>The end of every \<open>classifyIntent\<close> of the source: the two membership tests and
  the result object.\<close>

definition classification_of :: "intent \<times> nat \<Rightarrow> classification" where
  "classification_of best =
     (let bestIntent = fst best; bestScore = snd best;
          highRisk = bestIntent \<in> set [LegalThreat, FraudClaim, OffPlatform];
          mediumRisk = bestIntent \<in> set [Return, Refund, DamagedItem, Cancellation]
      in \<lparr> intent = bestIntent,
           confidence = min (bestScore * 30 + 20) 95,
           risk = (if highRisk then High else if mediumRisk then Medium else Low) \<rparr>)"

subsection \<open>The classifier of the classifier agent\<close>

definition patterns_agent :: patterns where
  "patterns_agent =
    [(Tracking, [lit ''track'',
                 seqs [lit ''where'', Star Dot, alts [lit ''order'', lit ''package'', lit ''item'', lit ''shipment'']],
                 lit ''not received'', lit ''delivery date'']),
     (Return, [lit ''return'', seqs [lit ''send'', Star Dot, lit ''back''], lit ''exchange'']),
     (Refund, [lit ''refund'', lit ''money back'', seqs [lit ''charge'', Opt (Atom Dot), lit ''back'']]),
     (DamagedItem, [lit ''damaged'', lit ''broken'', lit ''cracked'', lit ''defective'', lit ''not working'']),
     (Cancellation, [lit ''cancel'', lit ''changed my mind'']),
     (LegalThreat, [lit ''lawyer'', lit ''legal action'', lit ''sue'', lit ''court'', lit ''report you'']),
     (FraudClaim, [lit ''scam'', lit ''fake'', lit ''counterfeit'']),
     (OffPlatform, [lit ''whatsapp'', seqs [lit ''paypal'', Star Dot, lit ''direct''],
                    seqs [lit ''email'', Star Dot, lit ''direct''], lit ''phone''])]"

text \<open>\<open>classifyIntent(message)\<close> of the classifier agent; \<open>message || ''\<close> is the
  message itself for a string.\<close>

definition classifyIntent :: "jsstring \<Rightarrow> classification" where
  "classifyIntent message = classification_of (best_of patterns_agent (toLowerCase message))"

subsection \<open>The classifiers of the two reply routes\<close>

definition patterns_r0 :: patterns where
  "patterns_r0 =
    [(Tracking, [lit ''track'',
                 seqs [lit ''where'', Star Dot, alts [lit ''order'', lit ''package'', lit ''item'']],
                 seqs [lit ''when'', Star Dot, alts [lit ''arrive'', lit ''deliver'', lit ''ship'', lit ''get'']],
                 seqs [lit ''hasn'', Atom Dot, lit ''t '', alts [lit ''arrived'', lit ''shipped'']],
                 lit ''not received'']),
     (Return, [lit ''return'', seqs [lit ''send'', Star Dot, lit ''back''],
               seqs [lit ''return '', alts [lit ''policy'', lit ''label'']], lit ''exchange'']),
     (Refund, [lit ''refund'', lit ''money back'', lit ''reimburse'']),
     (DamagedItem, [lit ''damaged'', lit ''broken'', lit ''cracked'', lit ''defective'', lit ''not working'',
                    seqs [lit ''doesn'', Atom Dot, lit ''t work''], lit ''faulty'']),
     (ShippingInquiry, [seqs [lit ''shipping '', alts [lit ''cost'', lit ''time'', lit ''method'']],
                        seqs [lit ''how long'', Star Dot, alts [lit ''ship'', lit ''deliver'']],
                        lit ''free shipping'']),
     (ItemQuestion, [lit ''compatible'',
                     seqs [lit ''does '', alts [lit ''it'', lit ''this''], lit '' '', alts [lit ''work'', lit ''fit'']],
                     seqs [lit ''what'', Star Dot, alts [lit ''size'', lit ''color'', lit ''dimension'']],
                     lit ''specs'']),
     (DiscountRequest, [lit ''discount'', lit ''lower price'', lit ''best price'', lit ''deal'', lit ''offer'']),
     (Cancellation, [lit ''cancel'', seqs [lit ''don'', Atom Dot, lit ''t want''], lit ''changed my mind'']),
     (PositiveFeedback, [lit ''thank'', seqs [lit ''great '', alts [lit ''seller'', lit ''service'']],
                         lit ''love it'', lit ''perfect'', lit ''excellent'']),
     (LegalThreat, [lit ''lawyer'', lit ''legal action'', lit ''sue'', lit ''court'', lit ''report you'']),
     (FraudClaim, [lit ''scam'', lit ''fraud'', lit ''fake'', lit ''counterfeit'']),
     (OffPlatform, [lit ''whatsapp'', lit ''call me'', lit ''text me'',
                    seqs [lit ''outside'', Star Dot, lit ''ebay'']])]"

definition classifyIntent_r0 :: "jsstring \<Rightarrow> classification" where
  "classifyIntent_r0 msg = classification_of (best_of patterns_r0 (toLowerCase msg))"

definition patterns_r1 :: patterns where
  "patterns_r1 =
    [(Tracking, [lit ''track'',
                 seqs [lit ''where'', Star Dot, alts [lit ''order'', lit ''package'', lit ''item'', lit ''shipment'']],
                 lit ''shipping status'',
                 seqs [lit ''when'', Star Dot, alts [lit ''arrive'', lit ''deliver'', lit ''ship'', lit ''get'']],
                 seqs [lit ''hasn'', Atom Dot, lit ''t '', alts [lit ''arrived'', lit ''shipped'']],
                 lit ''not received'', lit ''delivery date'']),
     (Return, [lit ''return'', seqs [lit ''send'', Star Dot, alts [lit ''back'', lit ''it back'']],
               seqs [lit ''want'', Star Dot, lit ''refund''],
               seqs [lit ''return '', alts [lit ''policy'', lit ''label'', lit ''request'']], lit ''exchange'']),
     (Refund, [lit ''refund'', lit ''money back'', seqs [lit ''charge'', Star Dot, lit ''back''],
               lit ''full refund'', lit ''partial refund'', lit ''reimburse'']),
     (DamagedItem, [lit ''damaged'', lit ''broken'', lit ''cracked'', lit ''dent'', lit ''scratch'',
                    lit ''defective'', lit ''not working'', seqs [lit ''doesn'', Atom Dot, lit ''t work''],
                    lit ''faulty'', lit ''arrived broken'']),
     (ShippingInquiry, [seqs [lit ''shipping '', alts [lit ''cost'', lit ''time'', lit ''method'', lit ''option'']],
                        seqs [lit ''how long'', Star Dot, alts [lit ''ship'', lit ''deliver'']],
                        lit ''expedit'', lit ''express ship'', lit ''free shipping'', lit ''international ship'']),
     (ItemQuestion, [lit ''compatible'',
                     seqs [lit ''does '', alts [lit ''it'', lit ''this''], lit '' '',
                           alts [lit ''work'', lit ''fit'', lit ''come'']],
                     seqs [lit ''what'', Star Dot,
                           alts [lit ''size'', lit ''color'', lit ''dimension'', lit ''weight'', lit ''material'']],
                     seqs [lit ''is '', alts [lit ''it'', lit ''this''], lit '' '',
                           alts [lit ''new'', lit ''genuine'', lit ''authentic'', lit ''original'']],
                     lit ''specs'', lit ''specification'']),
     (DiscountRequest, [lit ''discount'', lit ''lower price'', lit ''best price'', lit ''bulk'', lit ''deal'',
                        lit ''coupon'', lit ''offer'', lit ''negotiate'']),
     (Cancellation, [lit ''cancel'', seqs [lit ''don'', Atom Dot, lit ''t want''], lit ''changed my mind'',
                     seqs [lit ''stop'', Star Dot, lit ''order'']]),
     (PositiveFeedback, [lit ''thank'',
                         seqs [lit ''great '', alts [lit ''seller'', lit ''service'', lit ''product'', lit ''item'']],
                         seqs [lit ''love '', alts [lit ''it'', lit ''this'']],
                         lit ''perfect'', lit ''excellent'', lit ''amazing'', lit ''happy with'',
                         lit ''well packed'', lit ''fast ship'']),
     (LegalThreat, [lit ''lawyer'', lit ''attorney'', lit ''legal action'', lit ''sue you'', lit ''court'',
                    lit ''trading standards'', lit ''consumer rights'', lit ''report you'', lit ''bbb'',
                    lit ''complaint'']),
     (FraudClaim, [lit ''scam'', lit ''fraud'', lit ''fake'', lit ''counterfeit'',
                   seqs [lit ''not '', alts [lit ''genuine'', lit ''authentic'', lit ''real'']],
                   seqs [lit ''knock'', Opt (Atom Dot), lit ''off''], lit ''replica'']),
     (OffPlatform, [lit ''whatsapp'', seqs [lit ''paypal'', Star Dot, lit ''direct''], lit ''call me'',
                    lit ''text me'', seqs [lit ''email'', Star Dot, lit ''direct''],
                    seqs [lit ''outside'', Star Dot, lit ''ebay''], seqs [lit ''off'', Star Dot, lit ''ebay''],
                    seqs [lit ''my'', Star Dot, lit ''number''], lit ''phone''])]"

definition classifyIntent_r1 :: "jsstring \<Rightarrow> classification" where
  "classifyIntent_r1 message = classification_of (best_of patterns_r1 (toLowerCase message))"

subsection \<open>The algorithm in the words of the specification\<close>

text \<open>
  Each intent's score is the number of its patterns that match; the highest score wins,
  the earliest intent of the table among those that reach it; without any match the
  intent is \<open>general\<close>. Confidence is \<open>min(score * 30 + 20, 95)\<close>; risk follows from
  the intent by two fixed sets.
\<close>

definition scores :: "patterns \<Rightarrow> jsstring \<Rightarrow> (intent \<times> nat) list" where
  "scores table msg =
     map (\<lambda>entry. (fst entry, length (filter (\<lambda>r. rx_test r msg) (snd entry)))) table"

definition top_score :: "patterns \<Rightarrow> jsstring \<Rightarrow> nat" where
  "top_score table msg = Max (set (0 # map snd (scores table msg)))"

definition winner :: "patterns \<Rightarrow> jsstring \<Rightarrow> intent" where
  "winner table msg =
     (if top_score table msg = 0 then General
      else case find (\<lambda>e. snd e = top_score table msg) (scores table msg) of
             None \<Rightarrow> General
           | Some e \<Rightarrow> fst e)"

definition risk_of_intent :: "intent \<Rightarrow> risk" where
  "risk_of_intent i =
     (if i \<in> {LegalThreat, FraudClaim, OffPlatform} then High
      else if i \<in> {Return, Refund, DamagedItem, Cancellation} then Medium
      else Low)"

definition classify_spec :: "patterns \<Rightarrow> jsstring \<Rightarrow> classification" where
  "classify_spec table text =
     (let msg = toLowerCase text
      in \<lparr> intent = winner table msg,
           confidence = min (top_score table msg * 30 + 20) 95,
           risk = risk_of_intent (winner table msg) \<rparr>)"

section \<open>The agents\<close>

text \<open>An awaited call either resolves with a value or rejects, which throws at the
  \<open>await\<close>.\<close>

datatype 'a promise = Rejected | Resolved 'a

text \<open>\<open>x || ''\<close> for a string that may be undefined.\<close>

definition str_or_empty :: "jsstring option \<Rightarrow> jsstring" where
  "str_or_empty v = (case v of None \<Rightarrow> [] | Some s \<Rightarrow> s)"

text \<open>How a template literal prints a value that may be undefined.\<close>

definition render :: "jsstring option \<Rightarrow> jsstring" where
  "render v = (case v of None \<Rightarrow> js ''undefined'' | Some s \<Rightarrow> s)"

definition render_nat :: "nat option \<Rightarrow> jsstring" where
  "render_nat v = (case v of None \<Rightarrow> js ''undefined'' | Some n \<Rightarrow> show_nat n)"

subsection \<open>Classifier agent\<close>

text \<open>\<open>/\b\d{2}-\d{5}-\d{5}\b/\<close>\<close>

definition order_id_rx :: rx where
  "order_id_rx =
     seqs [Bnd, Atom Digit, Atom Digit, lit ''-'',
           Atom Digit, Atom Digit, Atom Digit, Atom Digit, Atom Digit, lit ''-'',
           Atom Digit, Atom Digit, Atom Digit, Atom Digit, Atom Digit, Bnd]"

definition extractOrderId :: "jsstring \<Rightarrow> jsstring option" where
  "extractOrderId text = rx_find order_id_rx False text"

record thread_message =
  tm_role :: "jsstring option"
  tm_text :: "jsstring option"

text \<open>The result of the classifier agent: the classification, \<open>extracted.orderId\<close>,
  \<open>needs.order\<close>, \<open>needs.tracking\<close> and \<open>missing\<close> (the constant \<open>agent\<close> tag is left
  out, here and in the other agents).\<close>

record classifier_result = classification +
  extracted_orderId :: "jsstring option"
  needs_order :: bool
  needs_tracking :: bool
  missing :: "jsstring list"

definition classifierAgent :: "jsstring option \<Rightarrow> thread_message list option \<Rightarrow> classifier_result" where
  "classifierAgent latestBuyerMessage threadMessages =
     (let text = str_or_empty latestBuyerMessage;
          thread = (case threadMessages of None \<Rightarrow> [] | Some ms \<Rightarrow> ms);
          oid = (case extractOrderId text of
                       Some m \<Rightarrow> Some m
                     | None \<Rightarrow> extractOrderId (join [10] (map (\<lambda>m. str_or_empty (tm_text m)) thread)));
          c = classifyIntent text;
          order = intent c \<in> set [Tracking, Refund, Return, DamagedItem, Cancellation];
          tracking = (if order then intent c \<in> set [Tracking] else False)
      in \<lparr> intent = intent c, confidence = confidence c, risk = risk c,
           extracted_orderId = oid,
           needs_order = order,
           needs_tracking = tracking,
           missing = (if order \<and> oid = None then [js ''order_id''] else []) \<rparr>)"

subsection \<open>Data fetch agent\<close>

text \<open>What the marketplace returns for an order, as far as the agent reads it, and the
  tracking entries that \<open>fetchOrderAndTracking\<close> builds.\<close>

record line_item =
  li_title :: "jsstring option"
  li_quantity :: "nat option"
  li_legacyItemId :: "jsstring option"
  li_lineItemId :: "jsstring option"

record ebay_order =
  eo_orderId :: "jsstring option"
  orderFulfillmentStatus :: "jsstring option"
  orderPaymentStatus :: "jsstring option"
  creationDate :: "jsstring option"
  buyer_username :: "jsstring option"
  shipTo_fullName :: "jsstring option"
  lineItems :: "line_item list option"

record tracking_entry =
  carrier :: "jsstring option"
  trackingNumber :: "jsstring option"
  shippedDate :: "jsstring option"
  deliveryStatus :: "jsstring option"

text \<open>The result of \<open>fetchOrderAndTracking\<close>: \<open>{ ok: false, ... }\<close> or
  \<open>{ ok: true, order, tracking }\<close>.\<close>

datatype fetch_result = FetchFailed | Fetched ebay_order "tracking_entry list"

text \<open>The two calls of the agent into the marketplace client.\<close>

record ebay_client =
  getEbayToken :: "jsstring \<Rightarrow> jsstring option promise"
  fetchOrderAndTracking :: "jsstring \<Rightarrow> jsstring \<Rightarrow> fetch_result promise"

record order_item =
  title :: "jsstring option"
  qty :: "nat option"
  itemId :: "jsstring option"

record order_facts =
  orderId :: "jsstring option"
  status :: "jsstring option"
  paymentStatus :: "jsstring option"
  created :: "jsstring option"
  buyerUsername :: jsstring
  shipToName :: jsstring
  items :: "order_item list"

text \<open>The result of the agent: \<open>ok\<close>, \<open>fetched.order\<close>, \<open>fetched.tracking\<close>, whether
  \<open>fetched.error\<close> is set, and \<open>missing\<close>.\<close>

record data_fetch =
  ok :: bool
  fetched_order :: "order_facts option"
  fetched_tracking :: "tracking_entry list option"
  fetched_error :: bool
  df_missing :: "jsstring list"

definition normalize_order :: "ebay_order \<Rightarrow> order_facts" where
  "normalize_order order =
     \<lparr> orderId = eo_orderId order,
       status = orderFulfillmentStatus order,
       paymentStatus = orderPaymentStatus order,
       created = creationDate order,
       buyerUsername = str_or_empty (buyer_username order),
       shipToName = str_or_empty (shipTo_fullName order),
       items = map (\<lambda>li. \<lparr> title = li_title li, qty = li_quantity li,
                              itemId = or_else (li_legacyItemId li) (li_lineItemId li) \<rparr>)
                   (case lineItems order of None \<Rightarrow> [] | Some ls \<Rightarrow> ls) \<rparr>"

text \<open>\<open>dataFetchAgent({ userId, needs, orderId })\<close>, with \<open>needs.order\<close> as \<open>needsOrder\<close>
  and \<open>orderId\<close> as \<open>oid\<close>.\<close>

definition dataFetchAgent ::
  "ebay_client \<Rightarrow> jsstring \<Rightarrow> bool \<Rightarrow> jsstring option \<Rightarrow> data_fetch promise" where
  "dataFetchAgent client userId needsOrder oid =
     (let out = \<lparr> ok = True, fetched_order = None, fetched_tracking = None,
                   fetched_error = False, df_missing = [] \<rparr>
      in if \<not> needsOrder then Resolved out
         else if \<not> truthy oid then Resolved (out\<lparr> ok := False, df_missing := [js ''order_id''] \<rparr>)
         else case getEbayToken client userId of
                Rejected \<Rightarrow> Rejected
              | Resolved token \<Rightarrow>
                  if \<not> truthy token
                  then Resolved (out\<lparr> ok := False, df_missing := [js ''ebay_oauth''] \<rparr>)
                  else case fetchOrderAndTracking client (str_or_empty token) (str_or_empty oid) of
                         Rejected \<Rightarrow> Rejected
                       | Resolved FetchFailed \<Rightarrow> Resolved (out\<lparr> ok := False, fetched_error := True \<rparr>)
                       | Resolved (Fetched order tracking) \<Rightarrow>
                           Resolved (out\<lparr> fetched_order := Some (normalize_order order),
                                          fetched_tracking := Some tracking \<rparr>))"

subsection \<open>Reasoning agent\<close>

record reasoning =
  facts :: "jsstring list"
  questions :: "jsstring list"
  constraints :: "jsstring list"

definition question_order_id :: jsstring where
  "question_order_id =
     js ''Could you please confirm your eBay order number so I can check the tracking/status?''"

definition question_ebay_oauth :: jsstring where
  "question_ebay_oauth =
     js ''Seller needs to connect eBay account to fetch live order/tracking data.''"

text \<open>The template \<open>`${i.qty}X ${i.title}`\<close>, where \<open>X\<close> stands for the multiplication
  sign U+00D7.\<close>

definition item_text :: "order_item \<Rightarrow> jsstring" where
  "item_text i = render_nat (qty i) @ [215, 32] @ render (title i)"

text \<open>The lines pushed for \<open>dataFetch.fetched.order\<close>.\<close>

definition order_lines :: "order_facts option \<Rightarrow> jsstring list" where
  "order_lines fetched =
     (case fetched of
        None \<Rightarrow> []
      | Some order \<Rightarrow>
          [js ''Order ID: '' @ render (orderId order)] @
          (if truthy (status order) then [js ''Order status: '' @ render (status order)] else []) @
          (if items order \<noteq> [] then [js ''Items: '' @ join (js ''; '') (map item_text (items order))]
           else []))"

text \<open>The line pushed for the first entry of \<open>dataFetch.fetched.tracking || []\<close>.\<close>

definition tracking_lines :: "tracking_entry list option \<Rightarrow> jsstring list" where
  "tracking_lines fetched =
     (case (case fetched of None \<Rightarrow> [] | Some ts \<Rightarrow> ts) of
        [] \<Rightarrow> []
      | t # ts \<Rightarrow>
          if truthy (carrier t) \<or> truthy (trackingNumber t)
          then [trim (js ''Tracking: '' @ str_or_empty (carrier t) @ js '' '' @
                      str_or_empty (trackingNumber t))]
          else [])"

text \<open>\<open>reasoningAgent({ classifier, dataFetch, risk, profit })\<close>, with the constraints of
  the risk agent and the guidance of the profit agent as two lists.\<close>

definition reasoningAgent ::
  "classifier_result \<Rightarrow> data_fetch \<Rightarrow> jsstring list \<Rightarrow> jsstring list \<Rightarrow> reasoning" where
  "reasoningAgent classifier dataFetch risk_constraints profit_guidance =
     \<lparr> facts = order_lines (fetched_order dataFetch) @ tracking_lines (fetched_tracking dataFetch),
       questions =
         (if js ''order_id'' \<in> set (missing classifier) then [question_order_id] else []) @
         (if js ''ebay_oauth'' \<in> set (df_missing dataFetch) then [question_ebay_oauth] else []),
       constraints = risk_constraints @ profit_guidance \<rparr>"

subsection \<open>Safety check agent\<close>

text \<open>\<open>/whatsapp|telegram|paypal|email me|call me|text me/gi\<close>\<close>

definition off_platform_rx :: rx where
  "off_platform_rx =
     alts [lit ''whatsapp'', lit ''telegram'', lit ''paypal'', lit ''email me'', lit ''call me'',
           lit ''text me'']"

text \<open>\<open>/\b(it'?s our fault|we messed up|our mistake)\b/gi\<close>\<close>

definition admission_rx :: rx where
  "admission_rx =
     seqs [Bnd,
           alts [seqs [lit ''it'', Opt (Atom (Chr 39)), lit ''s our fault''], lit ''we messed up'',
                 lit ''our mistake''],
           Bnd]"

text \<open>\<open>/\b(guarantee|definitely|100% sure)\b/gi\<close>\<close>

definition guarantee_rx :: rx where
  "guarantee_rx = seqs [Bnd, alts [lit ''guarantee'', lit ''definitely'', lit ''100% sure''], Bnd]"

text \<open>\<open>safetyCheckAgent({ draft })\<close>; the result is the \<open>reply\<close> of the returned object.\<close>

definition safetyCheckAgent :: "jsstring option \<Rightarrow> jsstring" where
  "safetyCheckAgent draft =
     (let text0 = trim (str_or_empty draft);
          text1 = rx_replace off_platform_rx (js ''eBay messages'') False text0;
          text2 = rx_replace admission_rx (js ''I'' @ [8217] @ js ''m sorry for the inconvenience'')
                    False text1;
          text3 = rx_replace guarantee_rx (js ''will do our best to'') False text2
      in text3)"

subsection \<open>Writer agent\<close>

text \<open>
  The two text-generation backends. What a backend answers is not modelled: a call is
  given by its outcome, the returned object or a throw. The prompts, texts built from
  the arguments and read by the backend alone, are left out.
\<close>

datatype backend = OpenAI | Anthropic

record model_result =
  reply :: jsstring
  model :: jsstring
  tokens :: nat
  cost :: nat

record backends =
  callOpenAI :: "model_result promise"
  callAnthropic :: "model_result promise"

text \<open>\<open>writerAgent\<close>: the promise it returns and the backend calls it issues, in
  order.\<close>

definition writerAgent :: "backends \<Rightarrow> risk \<Rightarrow> model_result promise \<times> backend list" where
  "writerAgent b riskLevel =
     (if riskLevel = High then (callAnthropic b, [Anthropic])
      else case callOpenAI b of
             Resolved r \<Rightarrow> (Resolved r, [OpenAI])
           | Rejected \<Rightarrow> (callAnthropic b, [OpenAI, Anthropic]))"

section \<open>The reply routes\<close>

record user =
  signature_name :: "jsstring option"
  name :: "jsstring option"
  business_name :: "jsstring option"

record request =
  customer_message :: "jsstring option"
  modify_instructions :: "jsstring option"
  buyer_name :: "jsstring option"
  order_id :: "jsstring option"

datatype route = RuleRoute | Mini | Large

text \<open>The variables \<open>reply\<close>, \<open>model\<close>, \<open>tokens\<close>, \<open>cost\<close>, \<open>route\<close> of a handler are
  assigned together; before the first assignment the draft is \<open>None\<close>.\<close>

record generation = model_result +
  route :: route

text \<open>\<open>!reply\<close> is false when a non-empty reply has been assigned.\<close>

definition has_reply :: "generation option \<Rightarrow> bool" where
  "has_reply d = (case d of None \<Rightarrow> False | Some g \<Rightarrow> reply g \<noteq> [])"

text \<open>What a handler sends: the success object (without \<open>latency_ms\<close>, a clock
  reading), or a status with an error message.\<close>

record reply_body =
  res_reply :: jsstring
  res_intent :: intent
  res_risk :: risk
  res_route :: route
  res_ebay_data_used :: "bool option"

datatype response = Json reply_body | Failure nat jsstring

text \<open>The order data that the first route reads from the marketplace.\<close>

record ebay_data =
  ed_orderId :: "jsstring option"
  ed_status :: "jsstring option"

text \<open>
  The collaborators of one request: the outcome of every awaited database call (for a
  write, \<open>Resolved e\<close> with \<open>e\<close> true when the returned object carries an error, which
  the handlers never read; for the usage \<open>select\<close>, whether a row came back), what the
  order lookup of the first route leaves in \<open>ebayData\<close> (that block catches its own
  exceptions), and the backends, where the outcome of a call stands for the whole
  \<open>try\<close> body around it. The database client of the source resolves every awaited
  call; \<open>Rejected\<close> for such a call is kept for generality and stands for a call that
  throws.
\<close>

record world = backends +
  tone_samples :: "unit promise"
  ebay_lookup :: "ebay_data option"
  usage_select :: "bool promise"
  usage_update :: "bool promise"
  usage_insert :: "bool promise"
  reply_log_insert :: "bool promise"
  last_active_update :: "bool promise"

text \<open>The usage block of both handlers: four awaited calls in a row; the result is
  false when one of them throws.\<close>

definition track_usage :: "world \<Rightarrow> bool" where
  "track_usage w =
     (case usage_select w of
        Rejected \<Rightarrow> False
      | Resolved existing \<Rightarrow>
          (case (if existing then usage_update w else usage_insert w) of
             Rejected \<Rightarrow> False
           | Resolved e1 \<Rightarrow>
               (case reply_log_insert w of
                  Rejected \<Rightarrow> False
                | Resolved e2 \<Rightarrow>
                    (case last_active_update w of
                       Rejected \<Rightarrow> False
                     | Resolved e3 \<Rightarrow> True))))"

text \<open>The second tier of both handlers: skipped with a reply or with high risk;
  a throw is logged and leaves the draft as it was.\<close>

definition tier2 :: "world \<Rightarrow> risk \<Rightarrow> generation option \<Rightarrow> generation option \<times> backend list" where
  "tier2 w rsk d =
     (if \<not> has_reply d \<and> rsk \<noteq> High
      then (case callOpenAI w of
              Resolved r \<Rightarrow>
                (Some \<lparr> reply = reply r, model = model r, tokens = tokens r, cost = cost r,
                         route = Mini \<rparr>,
                 [OpenAI])
            | Rejected \<Rightarrow> (d, [OpenAI]))
      else (d, []))"

text \<open>The third tier: \<open>None\<close> when the call throws and the handler answers 500.\<close>

definition tier3 :: "world \<Rightarrow> generation option \<Rightarrow> generation option \<times> backend list" where
  "tier3 w d =
     (if \<not> has_reply d
      then (case callAnthropic w of
              Resolved r \<Rightarrow>
                (Some \<lparr> reply = reply r, model = model r, tokens = tokens r, cost = cost r,
                         route = Large \<rparr>,
                 [Anthropic])
            | Rejected \<Rightarrow> (None, [Anthropic]))
      else (d, []))"

subsection \<open>The route with the order lookup\<close>

definition template_tracking_r0 :: jsstring where
  "template_tracking_r0 =
          js ''Hi there,\<newline>\<newline>Thank you for your message. Your order has been dispatched '' @
          js ''and is on its way. You can find tracking info in your eBay purchase history '' @
          [8212] @
          js '' please allow 24 hours for tracking to activate.\<newline>\<newline>If you need anything '' @
          js ''else, just let me know.\<newline>\<newline>Best regards,\<newline>''"

definition template_positive_feedback_r0 :: jsstring where
  "template_positive_feedback_r0 =
          js ''Hi,\<newline>\<newline>Thank you so much for the kind words! I'm really glad you're happy '' @
          js ''with your purchase. If you ever need anything, don't hesitate to reach '' @
          js ''out.\<newline>\<newline>All the best,\<newline>''"

definition template_shipping_inquiry_r0 :: jsstring where
  "template_shipping_inquiry_r0 =
          js ''Hi there,\<newline>\<newline>Thank you for your interest! Shipping details and estimated '' @
          js ''delivery times are listed on each item's page. Standard shipping typically '' @
          js ''takes 3-5 business days domestically.\<newline>\<newline>Let me know if you have specific '' @
          js ''questions about shipping to your area.\<newline>\<newline>Best regards,\<newline>''"

definition template_off_platform_r0 :: jsstring where
  "template_off_platform_r0 =
          js ''Hi,\<newline>\<newline>Thank you for your message. For the protection of both buyers and '' @
          js ''sellers, I handle all communication and transactions through eBay's messaging '' @
          js ''system.\<newline>\<newline>Please continue our conversation here '' @
          [8212] @
          js '' I'm happy to help!\<newline>\<newline>Best regards,\<newline>''"

text \<open>\<open>getRuleReply(intent, sign, biz)\<close>\<close>

definition getRuleReply :: "intent \<Rightarrow> jsstring option \<Rightarrow> jsstring option \<Rightarrow> jsstring option" where
  "getRuleReply i sign biz =
     (let nm = str_or_empty (or_else (or_else sign biz) (Some (js ''The Seller'')))
      in case i of
           Tracking \<Rightarrow> Some (template_tracking_r0 @ nm)
         | PositiveFeedback \<Rightarrow> Some (template_positive_feedback_r0 @ nm)
         | ShippingInquiry \<Rightarrow> Some (template_shipping_inquiry_r0 @ nm)
         | OffPlatform \<Rightarrow> Some (template_off_platform_r0 @ nm)
         | _ \<Rightarrow> None)"

text \<open>The first tier: \<open>confidence >= 80 && risk === 'low' && !modify_instructions &&
  !ebayData\<close>, then a template if the intent has one.\<close>

definition tier1_r0 ::
  "classification \<Rightarrow> request \<Rightarrow> user \<Rightarrow> ebay_data option \<Rightarrow> generation option" where
  "tier1_r0 c req u ebayData =
     (if confidence c \<ge> 80 \<and> risk c = Low \<and> \<not> truthy (modify_instructions req) \<and> ebayData = None
      then (case getRuleReply (intent c) (or_else (signature_name u) (name u)) (business_name u) of
              Some rr \<Rightarrow> Some \<lparr> reply = rr, model = js ''rule'', tokens = 0, cost = 0, route = RuleRoute \<rparr>
            | None \<Rightarrow> None)
      else None)"

text \<open>\<open>router.post('/generate', ...)\<close>: the response and the backend calls issued, in
  order.\<close>

definition generate_r0 :: "world \<Rightarrow> user \<Rightarrow> request \<Rightarrow> response \<times> backend list" where
  "generate_r0 w u req =
     (case customer_message req of
        None \<Rightarrow> (Failure 400 (js ''Customer message is required''), [])
      | Some message \<Rightarrow>
          if length (trim message) < 3 then (Failure 400 (js ''Customer message is required''), [])
          else
            let c = classifyIntent_r0 message in
            case tone_samples w of
              Rejected \<Rightarrow> (Failure 500 (js ''Failed to generate reply.''), [])
            | Resolved tones \<Rightarrow>
                let ebayData = (if truthy (order_id req) \<or> truthy (buyer_name req)
                                then ebay_lookup w else None);
                    d1 = tier1_r0 c req u ebayData;
                    (d2, calls2) = tier2 w (risk c) d1;
                    (d3, calls3) = tier3 w d2
                in case d3 of
                     None \<Rightarrow> (Failure 500 (js ''AI service unavailable. Please try again.''),
                              calls2 @ calls3)
                   | Some g \<Rightarrow>
                       if track_usage w
                       then (Json \<lparr> res_reply = reply g, res_intent = intent c, res_risk = risk c,
                                    res_route = route g,
                                    res_ebay_data_used = Some (ebayData \<noteq> None) \<rparr>,
                             calls2 @ calls3)
                       else (Failure 500 (js ''Failed to generate reply.''), calls2 @ calls3))"

subsection \<open>The route without the order lookup\<close>

definition template_tracking_r1 :: jsstring where
  "template_tracking_r1 =
          js ''Hi there,\<newline>\<newline>Thank you for your message. Your order has been dispatched '' @
          js ''and is on its way to you. You can find your tracking information in your '' @
          js ''eBay purchase history or notifications '' @
          [8212] @
          js '' please allow up to 24 hours for tracking to become active after shipping.\<newline>\<newline>If '' @
          js ''you have any other questions, please don't hesitate to ask.\<newline>\<newline>Best regards,\<newline>''"

definition template_positive_feedback_r1 :: jsstring where
  "template_positive_feedback_r1 =
          js ''Hi,\<newline>\<newline>Thank you so much for the kind words '' @
          [8212] @
          js '' that really means a lot! I'm glad you're happy with your purchase. If '' @
          js ''you ever need anything in the future, don't hesitate to reach out.\<newline>\<newline>Wishing '' @
          js ''you all the best,\<newline>''"

definition template_shipping_inquiry_r1 :: jsstring where
  "template_shipping_inquiry_r1 =
          js ''Hi there,\<newline>\<newline>Thank you for your interest! Shipping details including estimated '' @
          js ''delivery times and costs are listed on each item's listing page. Standard '' @
          js ''shipping typically takes 3-5 business days domestically.\<newline>\<newline>If you have '' @
          js ''any specific questions about shipping to your location, I'm happy to help.\<newline>\<newline>Best '' @
          js ''regards,\<newline>''"

definition template_item_question_r1 :: jsstring where
  "template_item_question_r1 =
          js ''Hi,\<newline>\<newline>Thank you for your question! All product details, specifications, '' @
          js ''and compatibility information are listed in the item description. I'd '' @
          js ''recommend checking there first.\<newline>\<newline>If you need any clarification or have '' @
          js ''specific questions not covered in the listing, please let me know and '' @
          js ''I'll be happy to help.\<newline>\<newline>Best regards,\<newline>''"

definition template_off_platform_r1 :: jsstring where
  "template_off_platform_r1 =
          js ''Hi,\<newline>\<newline>Thank you for your message. For the protection of both buyers and '' @
          js ''sellers, I handle all communication and transactions through eBay's official '' @
          js ''messaging and checkout system.\<newline>\<newline>Please feel free to continue our conversation '' @
          js ''here '' @
          [8212] @
          js '' I'm happy to help with anything you need.\<newline>\<newline>Best regards,\<newline>''"

text \<open>\<open>getRuleBasedReply(intent, sellerName, businessName)\<close>\<close>

definition getRuleBasedReply :: "intent \<Rightarrow> jsstring option \<Rightarrow> jsstring option \<Rightarrow> jsstring option" where
  "getRuleBasedReply i sellerName businessName =
     (let sign = str_or_empty (or_else (or_else sellerName businessName) (Some (js ''The Seller'')))
      in case i of
           Tracking \<Rightarrow> Some (template_tracking_r1 @ sign)
         | PositiveFeedback \<Rightarrow> Some (template_positive_feedback_r1 @ sign)
         | ShippingInquiry \<Rightarrow> Some (template_shipping_inquiry_r1 @ sign)
         | ItemQuestion \<Rightarrow> Some (template_item_question_r1 @ sign)
         | OffPlatform \<Rightarrow> Some (template_off_platform_r1 @ sign)
         | _ \<Rightarrow> None)"

text \<open>The first tier: \<open>confidence >= 80 && risk === 'low' && !modify_instructions\<close>,
  then a template if the intent has one.\<close>

definition tier1_r1 :: "classification \<Rightarrow> request \<Rightarrow> user \<Rightarrow> generation option" where
  "tier1_r1 c req u =
     (if confidence c \<ge> 80 \<and> risk c = Low \<and> \<not> truthy (modify_instructions req)
      then (case getRuleBasedReply (intent c) (or_else (signature_name u) (name u)) (business_name u) of
              Some ruleReply \<Rightarrow>
                Some \<lparr> reply = ruleReply, model = js ''rule-based'', tokens = 0, cost = 0,
                       route = RuleRoute \<rparr>
            | None \<Rightarrow> None)
      else None)"

definition generate_r1 :: "world \<Rightarrow> user \<Rightarrow> request \<Rightarrow> response \<times> backend list" where
  "generate_r1 w u req =
     (case customer_message req of
        None \<Rightarrow> (Failure 400 (js ''Customer message is required''), [])
      | Some message \<Rightarrow>
          if length (trim message) < 3 then (Failure 400 (js ''Customer message is required''), [])
          else
            let c = classifyIntent_r1 message in
            case tone_samples w of
              Rejected \<Rightarrow> (Failure 500 (js ''Failed to generate reply. Please try again.''), [])
            | Resolved toneSamples \<Rightarrow>
                let d1 = tier1_r1 c req u;
                    (d2, calls2) = tier2 w (risk c) d1;
                    (d3, calls3) = tier3 w d2
                in case d3 of
                     None \<Rightarrow> (Failure 500 (js ''AI service unavailable. Please try again in a moment.''),
                              calls2 @ calls3)
                   | Some g \<Rightarrow>
                       if track_usage w
                       then (Json \<lparr> res_reply = reply g, res_intent = intent c, res_risk = risk c,
                                    res_route = route g, res_ebay_data_used = None \<rparr>,
                             calls2 @ calls3)
                       else (Failure 500 (js ''Failed to generate reply. Please try again.''),
                             calls2 @ calls3))"

section \<open>Example inputs\<close>

text \<open>A request whose collaborators all answer, used to run the handlers on concrete
  messages.\<close>

definition example_mini :: model_result where
  "example_mini =
     \<lparr> reply = js ''Please whatsapp me'', model = js ''gpt-4o-mini'', tokens = 120, cost = 30 \<rparr>"

definition example_large :: model_result where
  "example_large =
     \<lparr> reply = js ''Thank you for your message.'', model = js ''claude-haiku-4-5-20241022'',
       tokens = 150, cost = 200 \<rparr>"

definition example_world :: world where
  "example_world =
     \<lparr> callOpenAI = Resolved example_mini, callAnthropic = Resolved example_large,
       tone_samples = Resolved (), ebay_lookup = None, usage_select = Resolved False,
       usage_update = Resolved False, usage_insert = Resolved False,
       reply_log_insert = Resolved False, last_active_update = Resolved False \<rparr>"

definition example_user :: user where
  "example_user = \<lparr> signature_name = Some (js ''Sam''), name = None, business_name = None \<rparr>"

definition example_request :: "jsstring \<Rightarrow> request" where
  "example_request message =
     \<lparr> customer_message = Some message, modify_instructions = None, buyer_name = None,
       order_id = None \<rparr>"

text \<open>A marketplace client that answers every call with the given token and result, an
  order as the marketplace may return it, without \<open>orderId\<close>, and the classification
  of two refund messages, with and without an order number.\<close>

definition example_client :: "jsstring option \<Rightarrow> fetch_result \<Rightarrow> ebay_client" where
  "example_client token result =
     \<lparr> getEbayToken = (\<lambda>userId. Resolved token),
       fetchOrderAndTracking = (\<lambda>accessToken orderId. Resolved result) \<rparr>"

definition example_order :: ebay_order where
  "example_order =
     \<lparr> eo_orderId = None, orderFulfillmentStatus = Some (js ''FULFILLED''),
       orderPaymentStatus = Some (js ''PAID''), creationDate = None,
       buyer_username = Some (js ''buyer42''), shipTo_fullName = None,
       lineItems = Some [\<lparr> li_title = Some (js ''Blue mug''), li_quantity = Some 2,
                            li_legacyItemId = Some (js ''1234567890''), li_lineItemId = None \<rparr>] \<rparr>"

definition refund_with_id :: classifier_result where
  "refund_with_id = classifierAgent (Some (js ''refund 12-12345-12345'')) None"

definition refund_without_id :: classifier_result where
  "refund_without_id = classifierAgent (Some (js ''refund please'')) None"

text \<open>What a response shows of the route taken.\<close>

definition sent_route :: "response \<Rightarrow> route option" where
  "sent_route r = (case r of Json body \<Rightarrow> Some (res_route body) | Failure st msg \<Rightarrow> None)"

section \<open>The classifier follows the specified algorithm\<close>

lemma fold_count:
  "fold (\<lambda>r score. if P r then score + 1 else score) rs (n::nat) = n + length (filter P rs)"
  by (induction rs arbitrary: n) auto

lemma score_of_count: "score_of rs msg = length (filter (\<lambda>r. rx_test r msg) rs)"
  by (simp add: score_of_def fold_count)

lemma Max_drop_small:
  fixes a b :: nat
  assumes "a \<le> b" and "finite S"
  shows "Max (insert a (insert b S)) = Max (insert b S)"
proof -
  have "Max (insert a (insert b S)) = max a (Max (insert b S))"
    using assms by (intro Max_insert) simp_all
  moreover have "b \<le> Max (insert b S)"
    using assms by (intro Max_ge) simp_all
  ultimately show ?thesis
    using assms by (simp only: max_absorb2 le_trans[of a b])
qed

lemma find_Max_some:
  fixes a :: nat
  assumes "Max (insert a (snd ` set xs)) \<noteq> a"
  shows "find (\<lambda>e. snd e = Max (insert a (snd ` set xs))) xs \<noteq> None"
proof -
  have "Max (insert a (snd ` set xs)) \<in> insert a (snd ` set xs)"
    by (intro Max_in) simp_all
  with assms have "Max (insert a (snd ` set xs)) \<in> snd ` set xs"
    by simp
  then show ?thesis
    by (auto simp: find_None_iff)
qed

text \<open>The loop from any starting pair: the score it ends with is the largest one seen,
  and the intent changes only for a score above the starting one, to the first entry
  that reaches the largest.\<close>

lemma best_fold:
  "fold (best_step msg) table (b0, s0) =
     (let top = Max (set (s0 # map snd (scores table msg)))
      in (if top = s0 then b0
          else (case find (\<lambda>e. snd e = top) (scores table msg) of None \<Rightarrow> b0 | Some e \<Rightarrow> fst e),
          top))"
proof (induction table arbitrary: b0 s0)
  case Nil
  show ?case by (simp add: scores_def)
next
  case (Cons entry table)
  let ?c = "length (filter (\<lambda>r. rx_test r msg) (snd entry))"
  let ?rest = "snd ` set (scores table msg)"
  have sc: "scores (entry # table) msg = (fst entry, ?c) # scores table msg"
    by (simp add: scores_def)
  have sets: "set (s0 # map snd (scores (entry # table) msg)) = insert s0 (insert ?c ?rest)"
    "set (?c # map snd (scores table msg)) = insert ?c ?rest"
    "set (s0 # map snd (scores table msg)) = insert s0 ?rest"
    by (simp_all add: sc)
  show ?case
  proof (cases "?c > s0")
    case True
    then have step: "best_step msg entry (b0, s0) = (fst entry, ?c)"
      by (simp add: best_step_def score_of_count)
    have mx: "Max (insert s0 (insert ?c ?rest)) = Max (insert ?c ?rest)"
      using True by (intro Max_drop_small) simp_all
    have ge: "?c \<le> Max (insert ?c ?rest)"
      by (intro Max_ge) simp_all
    have "fold (best_step msg) (entry # table) (b0, s0) = fold (best_step msg) table (fst entry, ?c)"
      by (simp add: step)
    then show ?thesis
      using True ge find_Max_some[of ?c "scores table msg"] unfolding Cons.IH sets mx
      by (auto simp: Let_def sc split: option.splits)
  next
    case False
    then have step: "best_step msg entry (b0, s0) = (b0, s0)"
      by (simp add: best_step_def score_of_count)
    have "Max (insert ?c (insert s0 ?rest)) = Max (insert s0 ?rest)"
      using False by (intro Max_drop_small) simp_all
    then have mx: "Max (insert s0 (insert ?c ?rest)) = Max (insert s0 ?rest)"
      by (simp only: insert_commute)
    have "s0 \<le> Max (insert s0 ?rest)"
      by (intro Max_ge) simp_all
    then have ge: "Max (insert s0 ?rest) \<noteq> s0 \<Longrightarrow> s0 < Max (insert s0 ?rest)"
      by linarith
    have "fold (best_step msg) (entry # table) (b0, s0) = fold (best_step msg) table (b0, s0)"
      by (simp add: step)
    then show ?thesis
      using False ge find_Max_some[of s0 "scores table msg"] unfolding Cons.IH sets mx
      by (auto simp: Let_def sc split: option.splits)
  qed
qed

lemma best_of_spec: "best_of table msg = (winner table msg, top_score table msg)"
  unfolding best_of_def best_fold winner_def top_score_def
  by (auto simp: Let_def split: option.splits)

lemma classification_of_spec:
  "classification_of (best_of table (toLowerCase message)) = classify_spec table message"
  by (simp add: best_of_spec classification_of_def classify_spec_def risk_of_intent_def Let_def)

lemma no_match_top_score:
  assumes "\<forall>entry \<in> set table. \<forall>r \<in> set (snd entry). \<not> rx_test r msg"
  shows "top_score table msg = 0"
proof -
  have "snd e = 0" if "e \<in> set (scores table msg)" for e
    using that assms by (auto simp: scores_def filter_empty_conv)
  then have eq: "set (0 # map snd (scores table msg)) = {0}"
    by auto
  show ?thesis
    unfolding top_score_def eq by simp
qed

lemma no_match_general:
  assumes "\<forall>entry \<in> set table. \<forall>r \<in> set (snd entry). \<not> rx_test r (toLowerCase message)"
  shows "classify_spec table message = \<lparr>intent = General, confidence = 20, risk = Low\<rparr>"
  using no_match_top_score[OF assms]
  by (simp add: classify_spec_def winner_def risk_of_intent_def Let_def)

text \<open>Evaluation of the classifiers on a given message.\<close>

lemmas classify_eval =
  classifyIntent_def classifyIntent_r0_def classifyIntent_r1_def patterns_agent_def
  patterns_r0_def patterns_r1_def best_of_def best_step_def score_of_def rx_test_def js_def
  toLowerCase_def lower_unit_def canon_def is_word_def is_line_terminator_def
  classification_of_def

lemma classify_empty:
  "classifyIntent [] = \<lparr>intent = General, confidence = 20, risk = Low\<rparr>"
  "classifyIntent_r1 [] = \<lparr>intent = General, confidence = 20, risk = Low\<rparr>"
  "classifyIntent_r0 [] = \<lparr>intent = General, confidence = 20, risk = Low\<rparr>"
  by (simp_all add: classify_eval)

text \<open>
  C6: \<open>classifyIntent\<close> is a total function on strings and computes what the
  specification describes: per intent the number of matching patterns on the lower-cased
  input, the highest score wins and among equal scores the earliest intent of the table,
  confidence is \<open>min(score * 30 + 20, 95)\<close>; a message that no pattern matches, the
  empty one included, gives \<open>general\<close>, 20, \<open>low\<close>. This holds for the classifier of
  the agent and for those of the two reply routes.
\<close>

theorem classifyIntent_algorithm:
  "classifyIntent message = classify_spec patterns_agent message \<and>
   classifyIntent_r1 message = classify_spec patterns_r1 message \<and>
   classifyIntent_r0 message = classify_spec patterns_r0 message \<and>
   ((\<forall>entry \<in> set patterns_agent. \<forall>r \<in> set (snd entry). \<not> rx_test r (toLowerCase message)) \<longrightarrow>
      classifyIntent message = \<lparr>intent = General, confidence = 20, risk = Low\<rparr>) \<and>
   ((\<forall>entry \<in> set patterns_r1. \<forall>r \<in> set (snd entry). \<not> rx_test r (toLowerCase message)) \<longrightarrow>
      classifyIntent_r1 message = \<lparr>intent = General, confidence = 20, risk = Low\<rparr>) \<and>
   ((\<forall>entry \<in> set patterns_r0. \<forall>r \<in> set (snd entry). \<not> rx_test r (toLowerCase message)) \<longrightarrow>
      classifyIntent_r0 message = \<lparr>intent = General, confidence = 20, risk = Low\<rparr>) \<and>
   classifyIntent [] = \<lparr>intent = General, confidence = 20, risk = Low\<rparr> \<and>
   classifyIntent_r1 [] = \<lparr>intent = General, confidence = 20, risk = Low\<rparr> \<and>
   classifyIntent_r0 [] = \<lparr>intent = General, confidence = 20, risk = Low\<rparr>"
proof -
  have a: "classifyIntent message = classify_spec patterns_agent message"
    by (simp only: classifyIntent_def classification_of_spec)
  have b: "classifyIntent_r1 message = classify_spec patterns_r1 message"
    by (simp only: classifyIntent_r1_def classification_of_spec)
  have c: "classifyIntent_r0 message = classify_spec patterns_r0 message"
    by (simp only: classifyIntent_r0_def classification_of_spec)
  show ?thesis
    unfolding a b c
    using no_match_general[of patterns_agent message] no_match_general[of patterns_r1 message]
      no_match_general[of patterns_r0 message] classify_empty[unfolded a b c]
    by blast
qed

theorem classifyIntent_algorithm_witness:
  "classifyIntent (js ''Hi!'') = \<lparr>intent = General, confidence = 20, risk = Low\<rparr> \<and>
   classifyIntent_r1 (js ''Hi!'') = \<lparr>intent = General, confidence = 20, risk = Low\<rparr> \<and>
   classifyIntent_r0 (js ''Hi!'') = \<lparr>intent = General, confidence = 20, risk = Low\<rparr>"
proof -
  have h1: "\<forall>entry \<in> set patterns_agent. \<forall>r \<in> set (snd entry). \<not> rx_test r (toLowerCase (js ''Hi!''))"
    by (simp add: patterns_agent_def rx_test_def js_def toLowerCase_def lower_unit_def canon_def
        is_word_def is_line_terminator_def)
  have h2: "\<forall>entry \<in> set patterns_r1. \<forall>r \<in> set (snd entry). \<not> rx_test r (toLowerCase (js ''Hi!''))"
    by (simp add: patterns_r1_def rx_test_def js_def toLowerCase_def lower_unit_def canon_def
        is_word_def is_line_terminator_def)
  have h3: "\<forall>entry \<in> set patterns_r0. \<forall>r \<in> set (snd entry). \<not> rx_test r (toLowerCase (js ''Hi!''))"
    by (simp add: patterns_r0_def rx_test_def js_def toLowerCase_def lower_unit_def canon_def
        is_word_def is_line_terminator_def)
  show ?thesis
    using h1 h2 h3 classifyIntent_algorithm[of "js ''Hi!''"] by blast
qed

section \<open>Risk and confidence of a classification\<close>

lemma classification_of_risk:
  assumes "c = classification_of b"
  shows "risk c = risk_of_intent (intent c) \<and>
   (risk c = High \<longleftrightarrow> intent c \<in> {LegalThreat, FraudClaim, OffPlatform}) \<and>
   (risk c = Medium \<longleftrightarrow> intent c \<in> {Return, Refund, DamagedItem, Cancellation}) \<and>
   (risk c = Low \<longleftrightarrow>
      intent c \<notin> {LegalThreat, FraudClaim, OffPlatform, Return, Refund, DamagedItem, Cancellation})"
  unfolding assms by (auto simp: classification_of_def risk_of_intent_def Let_def)

text \<open>
  C8: the risk of a classification is a function of its intent alone: high exactly for
  \<open>legal_threat\<close>, \<open>fraud_claim\<close> and \<open>off_platform\<close>, medium exactly for \<open>return\<close>,
  \<open>refund\<close>, \<open>damaged_item\<close> and \<open>cancellation\<close>, low for every other intent; so no
  message gives high risk with an intent outside the first set.
\<close>

theorem risk_from_intent:
  "c \<in> {classifyIntent message, classifyIntent_r1 message, classifyIntent_r0 message} \<Longrightarrow>
   risk c = risk_of_intent (intent c) \<and>
   (risk c = High \<longleftrightarrow> intent c \<in> {LegalThreat, FraudClaim, OffPlatform}) \<and>
   (risk c = Medium \<longleftrightarrow> intent c \<in> {Return, Refund, DamagedItem, Cancellation}) \<and>
   (risk c = Low \<longleftrightarrow>
      intent c \<notin> {LegalThreat, FraudClaim, OffPlatform, Return, Refund, DamagedItem, Cancellation})"
proof -
  assume "c \<in> {classifyIntent message, classifyIntent_r1 message, classifyIntent_r0 message}"
  then obtain b where "c = classification_of b"
    unfolding classifyIntent_def classifyIntent_r1_def classifyIntent_r0_def by blast
  then show ?thesis
    by (rule classification_of_risk)
qed

lemma classify_sue_you:
  "classifyIntent (js ''sue you'') = \<lparr>intent = LegalThreat, confidence = 50, risk = High\<rparr>"
  "classifyIntent_r1 (js ''sue you'') = \<lparr>intent = LegalThreat, confidence = 50, risk = High\<rparr>"
  "classifyIntent_r0 (js ''sue you'') = \<lparr>intent = LegalThreat, confidence = 50, risk = High\<rparr>"
  by (simp_all add: classify_eval)

theorem risk_from_intent_witness:
  "classifyIntent (js ''sue you'') \<in>
     {classifyIntent (js ''sue you''), classifyIntent_r1 (js ''sue you''), classifyIntent_r0 (js ''sue you'')} \<and>
   risk (classifyIntent (js ''sue you'')) = High \<and>
   intent (classifyIntent (js ''sue you'')) = LegalThreat"
  using risk_from_intent[of "classifyIntent (js ''sue you'')" "js ''sue you''"]
  by (simp add: classify_sue_you)

lemma classification_of_confidence:
  "20 \<le> confidence (classification_of b) \<and> confidence (classification_of b) \<le> 95"
  by (simp add: classification_of_def Let_def)

text \<open>
  C10: for every message the confidence is a natural number from 20 to 95; 20 is
  reached, by the empty message.
\<close>

theorem confidence_range:
  "20 \<le> confidence (classifyIntent message) \<and> confidence (classifyIntent message) \<le> 95 \<and>
   20 \<le> confidence (classifyIntent_r1 message) \<and> confidence (classifyIntent_r1 message) \<le> 95 \<and>
   20 \<le> confidence (classifyIntent_r0 message) \<and> confidence (classifyIntent_r0 message) \<le> 95 \<and>
   confidence (classifyIntent []) = 20 \<and> confidence (classifyIntent_r1 []) = 20 \<and>
   confidence (classifyIntent_r0 []) = 20"
  unfolding classifyIntent_def classifyIntent_r1_def classifyIntent_r0_def
  using classification_of_confidence classify_empty[unfolded classifyIntent_def classifyIntent_r1_def classifyIntent_r0_def]
  by simp

theorem confidence_range_witness:
  "20 \<le> confidence (classifyIntent (js ''sue you'')) \<and> confidence (classifyIntent (js ''sue you'')) \<le> 95 \<and>
   confidence (classifyIntent (js ''sue you'')) = 50"
  using confidence_range[of "js ''sue you''"] by (simp add: classify_sue_you)


section \<open>The reply routes: tiers, drafts and responses\<close>

lemma js_eq_Nil [simp]: "js s = [] \<longleftrightarrow> s = []"
  by (simp add: js_def)

text \<open>Where the draft that leaves the third tier comes from.\<close>

lemma draft_origin:
  assumes "tier3 w (fst (tier2 w rsk d1)) = (Some g, calls3)"
  shows "(d1 = Some g \<and> reply g \<noteq> []) \<or>
         (route g = Mini \<and> (\<exists>r. callOpenAI w = Resolved r \<and> reply g = reply r)) \<or>
         (route g = Large \<and> (\<exists>r. callAnthropic w = Resolved r \<and> reply g = reply r))"
  using assms
  by (auto simp: tier2_def tier3_def has_reply_def split: if_splits promise.splits option.splits)

lemma tier1_r1_origin:
  assumes "tier1_r1 c req u = Some g"
  shows "route g = RuleRoute \<and> 80 \<le> confidence c \<and> risk c = Low \<and>
         \<not> truthy (modify_instructions req) \<and>
         getRuleBasedReply (intent c) (or_else (signature_name u) (name u)) (business_name u)
           = Some (reply g)"
  using assms by (auto simp: tier1_r1_def split: if_splits option.splits)

lemma tier1_r0_origin:
  assumes "tier1_r0 c req u ebayData = Some g"
  shows "route g = RuleRoute \<and> 80 \<le> confidence c \<and> risk c = Low \<and>
         \<not> truthy (modify_instructions req) \<and> ebayData = None \<and>
         getRuleReply (intent c) (or_else (signature_name u) (name u)) (business_name u)
           = Some (reply g)"
  using assms by (auto simp: tier1_r0_def split: if_splits option.splits)

text \<open>A success response of either handler shows the draft of the third tier.\<close>

lemma generate_r1_json:
  assumes "generate_r1 w u req = (Json body, calls)"
  shows "\<exists>message g calls3. customer_message req = Some message \<and>
           tier3 w (fst (tier2 w (risk (classifyIntent_r1 message))
                      (tier1_r1 (classifyIntent_r1 message) req u))) = (Some g, calls3) \<and>
           res_reply body = reply g \<and> res_route body = route g \<and>
           res_intent body = intent (classifyIntent_r1 message) \<and>
           res_risk body = risk (classifyIntent_r1 message)"
  using assms
  by (auto simp: generate_r1_def Let_def
      split: option.splits if_splits promise.splits prod.splits)

lemma generate_r0_json:
  assumes "generate_r0 w u req = (Json body, calls)"
  shows "\<exists>message g calls3. customer_message req = Some message \<and>
           tier3 w (fst (tier2 w (risk (classifyIntent_r0 message))
                      (tier1_r0 (classifyIntent_r0 message) req u
                         (if truthy (order_id req) \<or> truthy (buyer_name req)
                          then ebay_lookup w else None)))) = (Some g, calls3) \<and>
           res_reply body = reply g \<and> res_route body = route g \<and>
           res_intent body = intent (classifyIntent_r0 message) \<and>
           res_risk body = risk (classifyIntent_r0 message)"
  using assms
  by (auto simp: generate_r0_def Let_def
      split: option.splits if_splits promise.splits prod.splits)

text \<open>Evaluation of the handlers on the example request.\<close>

lemmas handler_eval =
  generate_r1_def generate_r0_def example_request_def example_world_def example_user_def
  example_mini_def example_large_def tier1_r1_def tier1_r0_def tier2_def tier3_def
  has_reply_def track_usage_def truthy_def

lemma classify_hello:
  "classifyIntent_r1 (js ''Hello'') = \<lparr>intent = General, confidence = 20, risk = Low\<rparr>"
  "classifyIntent_r0 (js ''Hello'') = \<lparr>intent = General, confidence = 20, risk = Low\<rparr>"
  by (simp_all add: classify_eval)

lemma classify_track:
  "classifyIntent (js ''track not received'') = \<lparr>intent = Tracking, confidence = 80, risk = Low\<rparr>"
  "classifyIntent_r1 (js ''track not received'') = \<lparr>intent = Tracking, confidence = 80, risk = Low\<rparr>"
  "classifyIntent_r0 (js ''track not received'') = \<lparr>intent = Tracking, confidence = 80, risk = Low\<rparr>"
  by (simp_all add: classify_eval)

lemma trim_examples:
  "length (trim (js ''Hello'')) = 5"
  "length (trim (js ''sue you'')) = 7"
  "length (trim (js ''track not received'')) = 18"
  by (simp_all add: trim_def js_def is_space_def)

lemma generate_hello:
  "generate_r1 example_world example_user (example_request (js ''Hello'')) =
     (Json \<lparr> res_reply = js ''Please whatsapp me'', res_intent = General, res_risk = Low,
              res_route = Mini, res_ebay_data_used = None \<rparr>, [OpenAI])"
  "generate_r0 example_world example_user (example_request (js ''Hello'')) =
     (Json \<lparr> res_reply = js ''Please whatsapp me'', res_intent = General, res_risk = Low,
              res_route = Mini, res_ebay_data_used = Some False \<rparr>, [OpenAI])"
  by (simp_all add: handler_eval classify_hello trim_examples)

lemma filter_whatsapp:
  "safetyCheckAgent (Some (js ''Please whatsapp me'')) = js ''Please eBay messages me''"
  by (simp add: safetyCheckAgent_def str_or_empty_def trim_def is_space_def js_def
      off_platform_rx_def admission_rx_def guarantee_rx_def canon_def is_word_def)

text \<open>
  C1, as stated, fails: neither handler calls the safety filter. On the message
  \<open>Hello\<close> the low-cost backend drafts \<open>Please whatsapp me\<close>; both handlers return
  that text, while the filter would turn it into \<open>Please eBay messages me\<close>.
\<close>

theorem reply_not_filtered_counterexample:
  "fst (generate_r1 example_world example_user (example_request (js ''Hello''))) =
     Json \<lparr> res_reply = js ''Please whatsapp me'', res_intent = General, res_risk = Low,
            res_route = Mini, res_ebay_data_used = None \<rparr> \<and>
   fst (generate_r0 example_world example_user (example_request (js ''Hello''))) =
     Json \<lparr> res_reply = js ''Please whatsapp me'', res_intent = General, res_risk = Low,
            res_route = Mini, res_ebay_data_used = Some False \<rparr> \<and>
   callOpenAI example_world = Resolved example_mini \<and>
   reply example_mini = js ''Please whatsapp me'' \<and>
   safetyCheckAgent (Some (js ''Please whatsapp me'')) = js ''Please eBay messages me'' \<and>
   js ''Please eBay messages me'' \<noteq> js ''Please whatsapp me''"
  by (simp add: generate_hello filter_whatsapp)
    (simp add: example_world_def example_mini_def js_def)

text \<open>
  C1, amended: the reply of a success response is the draft itself, unchanged: with
  route \<open>rule\<close> the template of the intent with the signature, with route \<open>mini\<close> the
  text returned by the low-cost backend, with route \<open>large\<close> the text returned by the
  high-cost backend.
\<close>

theorem reply_is_draft:
  "(generate_r1 w u req = (Json body, calls) \<longrightarrow>
      (res_route body = RuleRoute \<and>
       getRuleBasedReply (res_intent body) (or_else (signature_name u) (name u)) (business_name u)
         = Some (res_reply body)) \<or>
      (res_route body = Mini \<and> (\<exists>r. callOpenAI w = Resolved r \<and> res_reply body = reply r)) \<or>
      (res_route body = Large \<and> (\<exists>r. callAnthropic w = Resolved r \<and> res_reply body = reply r))) \<and>
   (generate_r0 w u req = (Json body, calls) \<longrightarrow>
      (res_route body = RuleRoute \<and>
       getRuleReply (res_intent body) (or_else (signature_name u) (name u)) (business_name u)
         = Some (res_reply body)) \<or>
      (res_route body = Mini \<and> (\<exists>r. callOpenAI w = Resolved r \<and> res_reply body = reply r)) \<or>
      (res_route body = Large \<and> (\<exists>r. callAnthropic w = Resolved r \<and> res_reply body = reply r)))"
proof (intro conjI impI)
  assume "generate_r1 w u req = (Json body, calls)"
  from generate_r1_json[OF this] obtain message g calls3 where
    t: "tier3 w (fst (tier2 w (risk (classifyIntent_r1 message))
          (tier1_r1 (classifyIntent_r1 message) req u))) = (Some g, calls3)"
    and b: "res_reply body = reply g" "res_route body = route g"
      "res_intent body = intent (classifyIntent_r1 message)"
    by blast
  from draft_origin[OF t] tier1_r1_origin[of "classifyIntent_r1 message" req u g] b
  show "(res_route body = RuleRoute \<and>
       getRuleBasedReply (res_intent body) (or_else (signature_name u) (name u)) (business_name u)
         = Some (res_reply body)) \<or>
      (res_route body = Mini \<and> (\<exists>r. callOpenAI w = Resolved r \<and> res_reply body = reply r)) \<or>
      (res_route body = Large \<and> (\<exists>r. callAnthropic w = Resolved r \<and> res_reply body = reply r))"
    by auto
next
  assume "generate_r0 w u req = (Json body, calls)"
  from generate_r0_json[OF this] obtain message g calls3 where
    t: "tier3 w (fst (tier2 w (risk (classifyIntent_r0 message))
          (tier1_r0 (classifyIntent_r0 message) req u
             (if truthy (order_id req) \<or> truthy (buyer_name req) then ebay_lookup w else None))))
        = (Some g, calls3)"
    and b: "res_reply body = reply g" "res_route body = route g"
      "res_intent body = intent (classifyIntent_r0 message)"
    by blast
  from draft_origin[OF t] tier1_r0_origin[of "classifyIntent_r0 message" req u _ g] b
  show "(res_route body = RuleRoute \<and>
       getRuleReply (res_intent body) (or_else (signature_name u) (name u)) (business_name u)
         = Some (res_reply body)) \<or>
      (res_route body = Mini \<and> (\<exists>r. callOpenAI w = Resolved r \<and> res_reply body = reply r)) \<or>
      (res_route body = Large \<and> (\<exists>r. callAnthropic w = Resolved r \<and> res_reply body = reply r))"
    by auto
qed

theorem reply_is_draft_witness:
  "generate_r1 example_world example_user (example_request (js ''Hello'')) =
     (Json \<lparr> res_reply = js ''Please whatsapp me'', res_intent = General, res_risk = Low,
              res_route = Mini, res_ebay_data_used = None \<rparr>, [OpenAI]) \<and>
   (\<exists>r. callOpenAI example_world = Resolved r \<and> js ''Please whatsapp me'' = reply r)"
  using generate_hello(1)
    reply_is_draft[of example_world example_user "example_request (js ''Hello'')"
      "\<lparr> res_reply = js ''Please whatsapp me'', res_intent = General, res_risk = Low,
         res_route = Mini, res_ebay_data_used = None \<rparr>" "[OpenAI]"]
  by simp

section \<open>When the rule tier is taken\<close>

lemma rule_reply_nonempty:
  "getRuleBasedReply i s b = Some rr \<Longrightarrow> rr \<noteq> []"
  "getRuleReply i s b = Some rr \<Longrightarrow> rr \<noteq> []"
  by (auto simp: getRuleBasedReply_def getRuleReply_def Let_def template_tracking_r1_def
      template_positive_feedback_r1_def template_shipping_inquiry_r1_def
      template_item_question_r1_def template_off_platform_r1_def template_tracking_r0_def
      template_positive_feedback_r0_def template_shipping_inquiry_r0_def
      template_off_platform_r0_def split: intent.splits)

lemma tiers_keep_reply:
  "reply g \<noteq> [] \<Longrightarrow> tier2 w rsk (Some g) = (Some g, [])"
  "reply g \<noteq> [] \<Longrightarrow> tier3 w (Some g) = (Some g, [])"
  by (simp_all add: tier2_def tier3_def has_reply_def)

lemma tier1_track:
  "\<exists>g. tier1_r1 \<lparr>intent = Tracking, confidence = 80, risk = Low\<rparr>
          (example_request (js ''track not received'')) example_user = Some g \<and>
        route g = RuleRoute \<and> reply g \<noteq> []"
  "\<exists>g. tier1_r0 \<lparr>intent = Tracking, confidence = 80, risk = Low\<rparr>
          (example_request (js ''track not received'')) example_user None = Some g \<and>
        route g = RuleRoute \<and> reply g \<noteq> []"
  by (simp_all add: tier1_r1_def tier1_r0_def example_request_def truthy_def
      getRuleBasedReply_def getRuleReply_def template_tracking_r1_def template_tracking_r0_def)

lemma generate_track:
  "sent_route (fst (generate_r1 example_world example_user
      (example_request (js ''track not received'')))) = Some RuleRoute"
  "sent_route (fst (generate_r0 example_world example_user
      (example_request (js ''track not received'')))) = Some RuleRoute"
proof -
  from tier1_track(1) obtain g where
    g: "tier1_r1 \<lparr>intent = Tracking, confidence = 80, risk = Low\<rparr>
          (example_request (js ''track not received'')) example_user = Some g"
      "route g = RuleRoute" "reply g \<noteq> []"
    by blast
  have tu: "track_usage example_world"
    by (simp add: track_usage_def example_world_def)
  have cm: "customer_message (example_request (js ''track not received''))
      = Some (js ''track not received'')"
    "order_id (example_request (js ''track not received'')) = None"
    "buyer_name (example_request (js ''track not received'')) = None"
    by (simp_all add: example_request_def)
  have ts: "tone_samples example_world = Resolved ()"
    by (simp add: example_world_def)
  show "sent_route (fst (generate_r1 example_world example_user
      (example_request (js ''track not received'')))) = Some RuleRoute"
    by (simp add: generate_r1_def cm ts trim_examples classify_track g tiers_keep_reply tu
        sent_route_def)
  from tier1_track(2) obtain g0 where
    g0: "tier1_r0 \<lparr>intent = Tracking, confidence = 80, risk = Low\<rparr>
          (example_request (js ''track not received'')) example_user None = Some g0"
      "route g0 = RuleRoute" "reply g0 \<noteq> []"
    by blast
  show "sent_route (fst (generate_r0 example_world example_user
      (example_request (js ''track not received'')))) = Some RuleRoute"
    by (simp add: generate_r0_def cm ts trim_examples classify_track g0 tiers_keep_reply tu
        sent_route_def truthy_def)
qed

lemma extract_none: "extractOrderId (js ''track not received'') = None"
  by (simp add: extractOrderId_def order_id_rx_def js_def is_word_def canon_def)

lemma needs_order_track:
  "needs_order (classifierAgent (Some (js ''track not received'')) None) = True"
  by (simp add: classifierAgent_def str_or_empty_def classify_track Let_def)

text \<open>
  C2, as stated, fails in its last condition: the message \<open>track not received\<close> has
  intent \<open>tracking\<close>, for which the classifier agent requires order facts, and both
  handlers answer it from the rule tier.
\<close>

theorem rule_tier_counterexample:
  "sent_route (fst (generate_r1 example_world example_user
      (example_request (js ''track not received'')))) = Some RuleRoute \<and>
   sent_route (fst (generate_r0 example_world example_user
      (example_request (js ''track not received'')))) = Some RuleRoute \<and>
   intent (classifyIntent_r1 (js ''track not received'')) = Tracking \<and>
   intent (classifyIntent_r0 (js ''track not received'')) = Tracking \<and>
   intent (classifierAgent (Some (js ''track not received'')) None) = Tracking \<and>
   needs_order (classifierAgent (Some (js ''track not received'')) None) = True"
  by (simp add: generate_track needs_order_track classify_track)
    (simp add: classifierAgent_def str_or_empty_def classify_track Let_def)

text \<open>
  C2, amended: a response has route \<open>rule\<close> only when the confidence is at least 80,
  the risk is low and no seller instructions are present; in the handler with the order
  lookup, also only when no order data was obtained. Whether the intent requires order
  facts plays no part.
\<close>

theorem rule_tier_conditions:
  "(generate_r1 w u req = (Json body, calls) \<and> res_route body = RuleRoute \<and>
    customer_message req = Some message \<longrightarrow>
      80 \<le> confidence (classifyIntent_r1 message) \<and> risk (classifyIntent_r1 message) = Low \<and>
      \<not> truthy (modify_instructions req)) \<and>
   (generate_r0 w u req = (Json body, calls) \<and> res_route body = RuleRoute \<and>
    customer_message req = Some message \<longrightarrow>
      80 \<le> confidence (classifyIntent_r0 message) \<and> risk (classifyIntent_r0 message) = Low \<and>
      \<not> truthy (modify_instructions req) \<and>
      (if truthy (order_id req) \<or> truthy (buyer_name req) then ebay_lookup w else None) = None)"
proof (rule conjI; rule impI)
  assume a: "generate_r1 w u req = (Json body, calls) \<and> res_route body = RuleRoute \<and>
    customer_message req = Some message"
  from generate_r1_json[of w u req body calls] a obtain g calls3 where
    t: "tier3 w (fst (tier2 w (risk (classifyIntent_r1 message))
          (tier1_r1 (classifyIntent_r1 message) req u))) = (Some g, calls3)"
    and b: "res_route body = route g"
    by auto
  from draft_origin[OF t] a b have "tier1_r1 (classifyIntent_r1 message) req u = Some g"
    by auto
  from tier1_r1_origin[OF this]
  show "80 \<le> confidence (classifyIntent_r1 message) \<and> risk (classifyIntent_r1 message) = Low \<and>
      \<not> truthy (modify_instructions req)"
    by simp
next
  assume a: "generate_r0 w u req = (Json body, calls) \<and> res_route body = RuleRoute \<and>
    customer_message req = Some message"
  let ?e = "if truthy (order_id req) \<or> truthy (buyer_name req) then ebay_lookup w else None"
  from generate_r0_json[of w u req body calls] a obtain g calls3 where
    t: "tier3 w (fst (tier2 w (risk (classifyIntent_r0 message))
          (tier1_r0 (classifyIntent_r0 message) req u ?e))) = (Some g, calls3)"
    and b: "res_route body = route g"
    by auto
  from draft_origin[OF t] a b have "tier1_r0 (classifyIntent_r0 message) req u ?e = Some g"
    by auto
  from tier1_r0_origin[OF this]
  show "80 \<le> confidence (classifyIntent_r0 message) \<and> risk (classifyIntent_r0 message) = Low \<and>
      \<not> truthy (modify_instructions req) \<and> ?e = None"
    by simp
qed


theorem rule_tier_conditions_witness:
  "sent_route (fst (generate_r1 example_world example_user
      (example_request (js ''track not received'')))) = Some RuleRoute \<and>
   80 \<le> confidence (classifyIntent_r1 (js ''track not received'')) \<and>
   risk (classifyIntent_r1 (js ''track not received'')) = Low \<and>
   \<not> truthy (modify_instructions (example_request (js ''track not received'')))"
proof -
  obtain body calls where
    g: "generate_r1 example_world example_user (example_request (js ''track not received''))
          = (Json body, calls)"
    and r: "res_route body = RuleRoute"
    using generate_track(1)
    by (cases "generate_r1 example_world example_user (example_request (js ''track not received''))")
      (auto simp: sent_route_def split: response.splits)
  have m: "customer_message (example_request (js ''track not received''))
      = Some (js ''track not received'')"
    by (simp add: example_request_def)
  from rule_tier_conditions[of example_world example_user
      "example_request (js ''track not received'')" body calls "js ''track not received''"] g r m
     generate_track(1)
  show ?thesis by simp
qed

section \<open>High risk and the low-cost backend\<close>

lemma generate_r1_high:
  assumes "customer_message req = Some message" and "risk (classifyIntent_r1 message) = High"
  shows "snd (generate_r1 w u req) = [] \<or>
         (snd (generate_r1 w u req) = [Anthropic] \<and>
          sent_route (fst (generate_r1 w u req)) \<in> {None, Some Large})"
  using assms
  by (auto simp: generate_r1_def tier1_r1_def tier2_def tier3_def has_reply_def Let_def
      sent_route_def split: promise.splits)

lemma generate_r0_high:
  assumes "customer_message req = Some message" and "risk (classifyIntent_r0 message) = High"
  shows "snd (generate_r0 w u req) = [] \<or>
         (snd (generate_r0 w u req) = [Anthropic] \<and>
          sent_route (fst (generate_r0 w u req)) \<in> {None, Some Large})"
  using assms
  by (auto simp: generate_r0_def tier1_r0_def tier2_def tier3_def has_reply_def Let_def
      sent_route_def split: promise.splits)

text \<open>
  C3: when the risk of the message is high, no call goes to the low-cost backend: each
  handler issues no backend call at all (the request is refused before routing) or
  exactly one, to the high-cost backend, and a success response then has route
  \<open>large\<close>; the writer agent with risk level \<open>high\<close> calls the high-cost backend
  alone.
\<close>

theorem high_risk_skips_low_cost:
  "(customer_message req = Some message \<and> risk (classifyIntent_r1 message) = High \<longrightarrow>
      OpenAI \<notin> set (snd (generate_r1 w u req)) \<and>
      snd (generate_r1 w u req) \<in> {[], [Anthropic]} \<and>
      sent_route (fst (generate_r1 w u req)) \<in> {None, Some Large}) \<and>
   (customer_message req = Some message \<and> risk (classifyIntent_r0 message) = High \<longrightarrow>
      OpenAI \<notin> set (snd (generate_r0 w u req)) \<and>
      snd (generate_r0 w u req) \<in> {[], [Anthropic]} \<and>
      sent_route (fst (generate_r0 w u req)) \<in> {None, Some Large}) \<and>
   snd (writerAgent b High) = [Anthropic]"
proof (intro conjI impI)
  show "snd (writerAgent b High) = [Anthropic]"
    by (simp add: writerAgent_def)
next
  assume a: "customer_message req = Some message \<and> risk (classifyIntent_r1 message) = High"
  then have c: "snd (generate_r1 w u req) = [] \<or>
         (snd (generate_r1 w u req) = [Anthropic] \<and>
          sent_route (fst (generate_r1 w u req)) \<in> {None, Some Large})"
    using generate_r1_high by blast
  show "OpenAI \<notin> set (snd (generate_r1 w u req))" using c by auto
  show "snd (generate_r1 w u req) \<in> {[], [Anthropic]}" using c by auto
  show "sent_route (fst (generate_r1 w u req)) \<in> {None, Some Large}"
    using c a by (auto simp: generate_r1_def sent_route_def Let_def tier1_r1_def tier2_def
        tier3_def has_reply_def split: promise.splits if_splits)
next
  assume a: "customer_message req = Some message \<and> risk (classifyIntent_r0 message) = High"
  then have c: "snd (generate_r0 w u req) = [] \<or>
         (snd (generate_r0 w u req) = [Anthropic] \<and>
          sent_route (fst (generate_r0 w u req)) \<in> {None, Some Large})"
    using generate_r0_high by blast
  show "OpenAI \<notin> set (snd (generate_r0 w u req))" using c by auto
  show "snd (generate_r0 w u req) \<in> {[], [Anthropic]}" using c by auto
  show "sent_route (fst (generate_r0 w u req)) \<in> {None, Some Large}"
    using c a by (auto simp: generate_r0_def sent_route_def Let_def tier1_r0_def tier2_def
        tier3_def has_reply_def split: promise.splits if_splits)
qed

lemma generate_sue:
  "generate_r1 example_world example_user (example_request (js ''sue you'')) =
     (Json \<lparr> res_reply = js ''Thank you for your message.'', res_intent = LegalThreat,
              res_risk = High, res_route = Large, res_ebay_data_used = None \<rparr>, [Anthropic])"
  "generate_r0 example_world example_user (example_request (js ''sue you'')) =
     (Json \<lparr> res_reply = js ''Thank you for your message.'', res_intent = LegalThreat,
              res_risk = High, res_route = Large, res_ebay_data_used = Some False \<rparr>, [Anthropic])"
  by (simp_all add: handler_eval classify_sue_you trim_examples)

theorem high_risk_skips_low_cost_witness:
  "risk (classifyIntent_r1 (js ''sue you'')) = High \<and>
   risk (classifyIntent_r0 (js ''sue you'')) = High \<and>
   snd (generate_r1 example_world example_user (example_request (js ''sue you''))) = [Anthropic] \<and>
   snd (generate_r0 example_world example_user (example_request (js ''sue you''))) = [Anthropic] \<and>
   OpenAI \<notin> set (snd (generate_r1 example_world example_user (example_request (js ''sue you'')))) \<and>
   OpenAI \<notin> set (snd (generate_r0 example_world example_user (example_request (js ''sue you''))))"
proof -
  have m: "customer_message (example_request (js ''sue you'')) = Some (js ''sue you'')"
    by (simp add: example_request_def)
  have h: "risk (classifyIntent_r1 (js ''sue you'')) = High"
    "risk (classifyIntent_r0 (js ''sue you'')) = High"
    by (simp_all add: classify_sue_you)
  from high_risk_skips_low_cost[of "example_request (js ''sue you'')" "js ''sue you''"
      example_world example_user] m h
  have "OpenAI \<notin> set (snd (generate_r1 example_world example_user (example_request (js ''sue you''))))"
    "OpenAI \<notin> set (snd (generate_r0 example_world example_user (example_request (js ''sue you''))))"
    by blast+
  then show ?thesis
    using h by (simp add: generate_sue)
qed

section \<open>Usage accounting and the response\<close>

text \<open>
  The database client of the source is the one that \<open>createClient\<close> returns: an awaited
  call of it resolves, with \<open>{ data: null, error }\<close> when the call failed. A failure of
  the usage block is therefore a call that resolves with an error (for the usage
  \<open>select\<close>, one that resolves without a row). The handlers read \<open>data\<close> alone, so
  such a failure changes nothing that they do.
\<close>

lemma track_usage_iff:
  "track_usage w \<longleftrightarrow>
     (\<exists>existing e1 e2 e3. usage_select w = Resolved existing \<and>
        (if existing then usage_update w else usage_insert w) = Resolved e1 \<and>
        reply_log_insert w = Resolved e2 \<and> last_active_update w = Resolved e3)"
  by (auto simp: track_usage_def split: promise.splits)

lemma track_usage_resolved:
  assumes "usage_select w = Resolved existing" and "usage_update w = Resolved e1"
    and "usage_insert w = Resolved e2" and "reply_log_insert w = Resolved e3"
    and "last_active_update w = Resolved e4"
  shows "track_usage w"
  using assms by (simp add: track_usage_def)

text \<open>
  C5: once a reply has been drafted (the message is accepted, the tone samples are read
  and the tiers leave the draft \<open>g\<close>), the response is the success object with the
  reply of \<open>g\<close>, whatever the four calls of the usage block return: with or without
  an error in the usage \<open>select\<close>, \<open>update\<close> or \<open>insert\<close>, in the insert into the
  reply log or in the update of \<open>last_active\<close>. This holds for both handlers.
\<close>

theorem accounting_failure_keeps_reply:
  assumes "usage_select w = Resolved existing" and "usage_update w = Resolved e1"
    and "usage_insert w = Resolved e2" and "reply_log_insert w = Resolved e3"
    and "last_active_update w = Resolved e4"
    and "customer_message req = Some message" and "3 \<le> length (trim message)"
    and "tone_samples w = Resolved t"
  shows
    "(tier3 w (fst (tier2 w (risk (classifyIntent_r1 message))
         (tier1_r1 (classifyIntent_r1 message) req u))) = (Some g, calls3) \<longrightarrow>
      fst (generate_r1 w u req) =
        Json \<lparr> res_reply = reply g, res_intent = intent (classifyIntent_r1 message),
               res_risk = risk (classifyIntent_r1 message), res_route = route g,
               res_ebay_data_used = None \<rparr>) \<and>
     (tier3 w (fst (tier2 w (risk (classifyIntent_r0 message))
         (tier1_r0 (classifyIntent_r0 message) req u
            (if truthy (order_id req) \<or> truthy (buyer_name req) then ebay_lookup w else None))))
        = (Some g, calls3) \<longrightarrow>
      fst (generate_r0 w u req) =
        Json \<lparr> res_reply = reply g, res_intent = intent (classifyIntent_r0 message),
               res_risk = risk (classifyIntent_r0 message), res_route = route g,
               res_ebay_data_used =
                 Some ((if truthy (order_id req) \<or> truthy (buyer_name req)
                        then ebay_lookup w else None) \<noteq> None) \<rparr>)"
proof -
  have tu: "track_usage w"
    using assms(1-5) by (rule track_usage_resolved)
  show ?thesis
    using assms(6-8) tu
    by (auto simp: generate_r1_def generate_r0_def Let_def split: prod.splits)
qed

theorem accounting_failure_keeps_reply_witness:
  "fst (generate_r1
         (example_world\<lparr> usage_insert := Resolved True, reply_log_insert := Resolved True,
                         last_active_update := Resolved True \<rparr>)
         example_user (example_request (js ''Hello''))) =
     Json \<lparr> res_reply = js ''Please whatsapp me'', res_intent = General, res_risk = Low,
            res_route = Mini, res_ebay_data_used = None \<rparr> \<and>
   fst (generate_r0
         (example_world\<lparr> usage_insert := Resolved True, reply_log_insert := Resolved True,
                         last_active_update := Resolved True \<rparr>)
         example_user (example_request (js ''Hello''))) =
     Json \<lparr> res_reply = js ''Please whatsapp me'', res_intent = General, res_risk = Low,
            res_route = Mini, res_ebay_data_used = Some False \<rparr>"
proof -
  let ?w = "example_world\<lparr> usage_insert := Resolved True, reply_log_insert := Resolved True,
                         last_active_update := Resolved True \<rparr>"
  let ?req = "example_request (js ''Hello'')"
  let ?g = "\<lparr> reply = js ''Please whatsapp me'', model = js ''gpt-4o-mini'', tokens = 120,
             cost = 30, route = Mini \<rparr>"
  have db: "usage_select ?w = Resolved False" "usage_update ?w = Resolved False"
    "usage_insert ?w = Resolved True" "reply_log_insert ?w = Resolved True"
    "last_active_update ?w = Resolved True" "tone_samples ?w = Resolved ()"
    by (simp_all add: example_world_def)
  have m: "customer_message ?req = Some (js ''Hello'')" "3 \<le> length (trim (js ''Hello''))"
    by (simp_all add: example_request_def trim_examples)
  have d1: "tier3 ?w (fst (tier2 ?w (risk (classifyIntent_r1 (js ''Hello'')))
         (tier1_r1 (classifyIntent_r1 (js ''Hello'')) ?req example_user))) = (Some ?g, [])"
    by (simp add: classify_hello tier1_r1_def tier2_def tier3_def has_reply_def
        example_world_def example_mini_def)
  have d0: "tier3 ?w (fst (tier2 ?w (risk (classifyIntent_r0 (js ''Hello'')))
         (tier1_r0 (classifyIntent_r0 (js ''Hello'')) ?req example_user
            (if truthy (order_id ?req) \<or> truthy (buyer_name ?req) then ebay_lookup ?w else None))))
        = (Some ?g, [])"
    by (simp add: classify_hello tier1_r0_def tier2_def tier3_def has_reply_def
        example_world_def example_mini_def example_request_def truthy_def)
  from accounting_failure_keeps_reply[OF db(1-5) m db(6), of example_user ?g "[]"] d1 d0
  show ?thesis
    by (simp add: classify_hello example_request_def truthy_def example_world_def)
qed

section \<open>Missing order facts and the questions of the reasoning agent\<close>

lemma star_atom_length:
  "st' \<in> set (star_atom a w s) \<Longrightarrow> length (snd st') \<le> length s"
  by (induction s arbitrary: w) (auto split: if_splits intro: le_SucI)

text \<open>A match never ends before the position where it started.\<close>

lemma rx_match_length:
  "st' \<in> set (rx_match r st) \<Longrightarrow> length (snd st') \<le> length (snd st)"
proof (induction r arbitrary: st st')
  case (Atom a)
  then show ?case
    by (cases st; cases "snd st") (auto split: if_splits)
next
  case Bnd
  then show ?case
    by (cases st) (auto split: if_splits)
next
  case (Seq r1 r2)
  from Seq.prems obtain mid where "mid \<in> set (rx_match r1 st)" "st' \<in> set (rx_match r2 mid)"
    by auto
  with Seq.IH show ?case
    by (meson le_trans)
next
  case (Star a)
  then show ?case
    by (cases st) (auto dest: star_atom_length)
qed auto

lemma order_id_match_shorter:
  assumes "st' \<in> set (rx_match order_id_rx (w, s))"
  shows "length (snd st') < length s"
proof (cases s)
  case Nil
  with assms show ?thesis
    by (simp add: order_id_rx_def)
next
  case (Cons c cs)
  let ?tail = "seqs [Atom Digit, lit ''-'',
           Atom Digit, Atom Digit, Atom Digit, Atom Digit, Atom Digit, lit ''-'',
           Atom Digit, Atom Digit, Atom Digit, Atom Digit, Atom Digit, Bnd]"
  have split: "order_id_rx = Seq Bnd (Seq (Atom Digit) ?tail)"
    by (simp add: order_id_rx_def)
  from assms have "st' \<in> set (rx_match ?tail (is_word c, cs))"
    unfolding split Cons by (auto split: if_splits)
  from rx_match_length[OF this] show ?thesis
    using Cons by simp
qed

lemma rx_find_order_id_nonempty:
  "rx_find order_id_rx w s = Some m \<Longrightarrow> m \<noteq> []"
proof (induction s arbitrary: w)
  case Nil
  have "rx_match order_id_rx (w, []) = []"
    using order_id_match_shorter[of _ w "[]"] by (cases "rx_match order_id_rx (w, [])") auto
  with Nil show ?case by simp
next
  case (Cons c cs)
  show ?case
  proof (cases "rx_match order_id_rx (w, c # cs)")
    case Nil
    with Cons show ?thesis by simp
  next
    case (Cons st sts)
    then have "length (snd st) < length (c # cs)"
      using order_id_match_shorter[of st w "c # cs"] by simp
    with Cons Cons.prems show ?thesis
      by (cases st) auto
  qed
qed

lemma extractOrderId_not_empty: "extractOrderId t \<noteq> Some []"
  using rx_find_order_id_nonempty[of False t "[]"] by (auto simp: extractOrderId_def)

lemma classifierAgent_orderId:
  "truthy (extracted_orderId (classifierAgent message thread)) \<longleftrightarrow>
     extracted_orderId (classifierAgent message thread) \<noteq> None"
  by (auto simp: classifierAgent_def Let_def truthy_def extractOrderId_not_empty
      split: option.splits)

lemma classifierAgent_missing:
  "missing (classifierAgent message thread) =
     (if needs_order (classifierAgent message thread) \<and>
         extracted_orderId (classifierAgent message thread) = None
      then [js ''order_id''] else [])"
  by (simp add: classifierAgent_def Let_def)

lemma tags_differ: "js ''order_id'' \<noteq> js ''ebay_oauth''"
  by (simp add: js_def)

lemma classify_refund:
  "classifyIntent (js ''refund 12-12345-12345'') = \<lparr>intent = Refund, confidence = 50, risk = Medium\<rparr>"
  "classifyIntent (js ''refund please'') = \<lparr>intent = Refund, confidence = 50, risk = Medium\<rparr>"
  by (simp_all add: classify_eval)

lemma extract_examples:
  "extractOrderId (js ''refund 12-12345-12345'') = Some (js ''12-12345-12345'')"
  "extractOrderId (js ''refund please'') = None"
  "extractOrderId [] = None"
  by (simp_all add: extractOrderId_def order_id_rx_def js_def is_word_def canon_def)

lemma refund_examples:
  "refund_with_id = \<lparr> intent = Refund, confidence = 50, risk = Medium,
      extracted_orderId = Some (js ''12-12345-12345''), needs_order = True,
      needs_tracking = False, missing = [] \<rparr>"
  "refund_without_id = \<lparr> intent = Refund, confidence = 50, risk = Medium,
      extracted_orderId = None, needs_order = True,
      needs_tracking = False, missing = [js ''order_id''] \<rparr>"
  by (simp_all add: refund_with_id_def refund_without_id_def classifierAgent_def str_or_empty_def
      classify_refund extract_examples Let_def)

text \<open>
  C4, as stated, fails for the third reason: the message carries an order number and the
  account has a token, the order fetch comes back \<open>ok: false\<close>; the data fetch agent
  reports \<open>ok = false\<close> with \<open>fetched.error\<close> set and nothing in \<open>missing\<close>, and the
  reasoning agent puts no question into the bundle.
\<close>

theorem upstream_failure_counterexample:
  "dataFetchAgent (example_client (Some (js ''token'')) FetchFailed) (js ''seller-1'')
      (needs_order refund_with_id) (extracted_orderId refund_with_id) =
     Resolved \<lparr> ok = False, fetched_order = None, fetched_tracking = None,
                fetched_error = True, df_missing = [] \<rparr> \<and>
   questions (reasoningAgent refund_with_id
      \<lparr> ok = False, fetched_order = None, fetched_tracking = None,
        fetched_error = True, df_missing = [] \<rparr> [] []) = []"
  by (simp add: refund_examples dataFetchAgent_def example_client_def truthy_def
      str_or_empty_def reasoningAgent_def)

text \<open>
  C4, amended: when the data fetch agent, run on the classifier agent's needs and order
  number, resolves with \<open>ok = false\<close>, the reasoning agent emits no fact line, and
  the questions of the bundle are: the request for the order number when no order
  number was found; the note to connect the marketplace account when the account has no
  token; none when the order fetch itself failed. One of the three is the case.
\<close>

theorem missing_facts_questions:
  assumes "cl = classifierAgent message thread"
    and "dataFetchAgent client userId (needs_order cl) (extracted_orderId cl) = Resolved df"
    and "\<not> ok df"
  shows "facts (reasoningAgent cl df rc pg) = [] \<and>
         (js ''order_id'' \<in> set (df_missing df) \<longrightarrow>
            questions (reasoningAgent cl df rc pg) = [question_order_id]) \<and>
         (js ''ebay_oauth'' \<in> set (df_missing df) \<longrightarrow>
            questions (reasoningAgent cl df rc pg) = [question_ebay_oauth]) \<and>
         (fetched_error df \<longrightarrow> questions (reasoningAgent cl df rc pg) = []) \<and>
         (df_missing df = [js ''order_id''] \<and> extracted_orderId cl = None \<and> \<not> fetched_error df \<or>
          df_missing df = [js ''ebay_oauth''] \<and> extracted_orderId cl \<noteq> None \<and> \<not> fetched_error df \<or>
          df_missing df = [] \<and> extracted_orderId cl \<noteq> None \<and> fetched_error df)"
proof -
  have t: "truthy (extracted_orderId cl) \<longleftrightarrow> extracted_orderId cl \<noteq> None"
    unfolding assms(1) by (rule classifierAgent_orderId)
  have m: "missing cl =
     (if needs_order cl \<and> extracted_orderId cl = None then [js ''order_id''] else [])"
    unfolding assms(1) by (rule classifierAgent_missing)
  from assms(2,3) t m tags_differ show ?thesis
    by (auto simp: dataFetchAgent_def reasoningAgent_def order_lines_def tracking_lines_def Let_def
        split: if_splits promise.splits fetch_result.splits)
qed

theorem missing_facts_questions_witness:
  "dataFetchAgent (example_client None FetchFailed) (js ''seller-1'')
      (needs_order refund_without_id) (extracted_orderId refund_without_id) =
     Resolved \<lparr> ok = False, fetched_order = None, fetched_tracking = None,
                fetched_error = False, df_missing = [js ''order_id''] \<rparr> \<and>
   questions (reasoningAgent refund_without_id
      \<lparr> ok = False, fetched_order = None, fetched_tracking = None,
        fetched_error = False, df_missing = [js ''order_id''] \<rparr> [] []) = [question_order_id] \<and>
   facts (reasoningAgent refund_without_id
      \<lparr> ok = False, fetched_order = None, fetched_tracking = None,
        fetched_error = False, df_missing = [js ''order_id''] \<rparr> [] []) = []"
proof -
  let ?df = "\<lparr> ok = False, fetched_order = None, fetched_tracking = None,
                fetched_error = False, df_missing = [js ''order_id''] \<rparr>"
  have d: "dataFetchAgent (example_client None FetchFailed) (js ''seller-1'')
      (needs_order refund_without_id) (extracted_orderId refund_without_id) = Resolved ?df"
    by (simp add: refund_examples dataFetchAgent_def truthy_def)
  have n: "\<not> ok ?df" by simp
  from missing_facts_questions[OF refund_without_id_def d n, of "[]" "[]"] d
  show ?thesis by simp
qed

section \<open>The fact lines of the reasoning agent\<close>

text \<open>Whenever an order was fetched, the first fact line is the order-id line, whatever
  the order's \<open>orderId\<close> is; the lines for status, items and tracking are guarded.\<close>

lemma order_id_line_always:
  assumes "fetched_order df = Some order"
  shows "hd (facts (reasoningAgent cl df rc pg)) = js ''Order ID: '' @ render (orderId order)"
  using assms by (simp add: reasoningAgent_def order_lines_def)

lemma show_nat_2: "show_nat 2 = js ''2''"
  by (simp add: show_nat.simps js_def)

text \<open>
  C9: the code breaks the claim. The marketplace returns an order without \<open>orderId\<close>;
  the data fetch agent passes the absent field on, and the reasoning agent, which guards
  the status, the items and the tracking entry, pushes the order-id line without a
  guard: the bundle holds the fact line \<open>Order ID: undefined\<close>.
\<close>

theorem order_id_line_for_absent_field:
  "dataFetchAgent (example_client (Some (js ''token'')) (Fetched example_order [])) (js ''seller-1'')
      (needs_order refund_with_id) (extracted_orderId refund_with_id) =
     Resolved \<lparr> ok = True,
                fetched_order = Some \<lparr> orderId = None, status = Some (js ''FULFILLED''),
                    paymentStatus = Some (js ''PAID''), created = None,
                    buyerUsername = js ''buyer42'', shipToName = [],
                    items = [\<lparr> title = Some (js ''Blue mug''), qty = Some 2,
                               itemId = Some (js ''1234567890'') \<rparr>] \<rparr>,
                fetched_tracking = Some [], fetched_error = False, df_missing = [] \<rparr> \<and>
   facts (reasoningAgent refund_with_id
      \<lparr> ok = True,
        fetched_order = Some \<lparr> orderId = None, status = Some (js ''FULFILLED''),
            paymentStatus = Some (js ''PAID''), created = None,
            buyerUsername = js ''buyer42'', shipToName = [],
            items = [\<lparr> title = Some (js ''Blue mug''), qty = Some 2,
                       itemId = Some (js ''1234567890'') \<rparr>] \<rparr>,
        fetched_tracking = Some [], fetched_error = False, df_missing = [] \<rparr> [] []) =
     [js ''Order ID: undefined'', js ''Order status: FULFILLED'',
      js ''Items: 2'' @ [215] @ js '' Blue mug'']"
  by (simp add: refund_examples dataFetchAgent_def example_client_def example_order_def truthy_def
      str_or_empty_def or_else_def normalize_order_def reasoningAgent_def order_lines_def
      tracking_lines_def render_def render_nat_def item_text_def show_nat_2)
    (simp add: js_def)

section \<open>The safety filter\<close>

text \<open>Where no pattern matches, \<open>replace\<close> returns its input.\<close>

lemma rx_replace_no_match: "\<not> rx_search r w s \<Longrightarrow> rx_replace r rep w s = s"
  by (induction s arbitrary: w) (auto split: list.splits)

lemma trim_starts: "dropWhile is_space (trim s) = trim s"
proof -
  let ?t = "dropWhile is_space s"
  have p: "trim s = [] \<or> hd (trim s) = hd ?t"
    unfolding trim_def
    by (metis append_Nil2 hd_append2 rev_append rev_is_Nil_conv rev_rev_ident takeWhile_dropWhile_id)
  have "?t = [] \<or> \<not> is_space (hd ?t)"
    by (metis hd_dropWhile)
  moreover have "?t = [] \<Longrightarrow> trim s = []"
    unfolding trim_def by (simp only: rev.simps dropWhile.simps)
  ultimately show ?thesis
    using p by (metis dropWhile_eq_self_iff)
qed

lemma trim_idem: "trim (trim s) = trim s"
proof -
  have "trim (trim s) = rev (dropWhile is_space (rev (trim s)))"
    by (simp add: trim_def[of "trim s"] trim_starts)
  also have "\<dots> = trim s"
    by (simp add: trim_def)
  finally show ?thesis .
qed

text \<open>The part of the filter's contract that holds: a draft whose trimmed text none of
  the three patterns matches comes back trimmed and otherwise unchanged, and filtering
  that result again returns it.\<close>

lemma safety_filter_clean:
  assumes "\<not> rx_test off_platform_rx (trim s)" and "\<not> rx_test admission_rx (trim s)"
    and "\<not> rx_test guarantee_rx (trim s)"
  shows "safetyCheckAgent (Some s) = trim s"
    and "safetyCheckAgent (Some (safetyCheckAgent (Some s))) = safetyCheckAgent (Some s)"
proof -
  show c: "safetyCheckAgent (Some s) = trim s"
    using assms by (simp add: safetyCheckAgent_def str_or_empty_def rx_test_def rx_replace_no_match)
  have "safetyCheckAgent (Some (trim s)) = trim s"
    using assms
    by (simp add: safetyCheckAgent_def str_or_empty_def rx_test_def trim_idem rx_replace_no_match)
  then show "safetyCheckAgent (Some (safetyCheckAgent (Some s))) = safetyCheckAgent (Some s)"
    by (simp add: c)
qed

lemmas filter_eval =
  safetyCheckAgent_def str_or_empty_def trim_def is_space_def js_def off_platform_rx_def
  admission_rx_def guarantee_rx_def canon_def is_word_def

text \<open>
  C7: the code breaks the claim. In \<open>email mwhatsapp\<close> the only match of the first
  pattern is \<open>whatsapp\<close>; its replacement \<open>eBay messages\<close> joins the text before it, and
  the output \<open>email meBay messages\<close> contains the off-platform phrase \<open>email me\<close>,
  which the same pattern matches. Filtering that output again changes it, so the filter
  is not idempotent on its own output either.
\<close>

theorem safety_filter_leaves_phrase:
  "safetyCheckAgent (Some (js ''email mwhatsapp'')) = js ''email meBay messages'' \<and>
   rx_test off_platform_rx (js ''email meBay messages'') \<and>
   safetyCheckAgent (Some (js ''email meBay messages'')) = js ''eBay messagesBay messages''"
  by (simp add: filter_eval rx_test_def)


end
